theory Spec2Isabelle
  imports Complex_Main
begin

section \<open>Python values, exceptions and strings\<close>

text \<open>
  A Python string is the list of its code points. The names the module itself writes (dict
  keys, provider names, messages) are 8-bit strings; \<open>ustr\<close> gives the code points of one.
\<close>

type_synonym codepoints = "nat list"

definition ustr :: "string \<Rightarrow> codepoints" where
  "ustr s = map of_char s"

text \<open>
  The module \<^verbatim>\<open>mem0/memory/graph_memory.py\<close> handles decoded tool-call payloads of the
  LLM client: trees of \<^verbatim>\<open>None\<close>, strings, integers, lists and string-keyed dicts. A dict is
  an association list in insertion order; a lookup takes the first binding of a key.
  \<open>PStr\<close> is the string value of an 8-bit string.
\<close>

datatype pyval =
    PNone
  | PText codepoints
  | PInt int
  | PList "pyval list"
  | PDict "(string \<times> pyval) list"

abbreviation PStr :: "string \<Rightarrow> pyval" where
  "PStr s \<equiv> PText (ustr s)"

text \<open>
  Every \<^verbatim>\<open>raise\<close> of the module and every exception of the Python operations it uses
  is a value. \<open>UpdateFailed\<close> is the \<^verbatim>\<open>Exception\<close> of \<^verbatim>\<open>_update_relationship\<close>,
  \<open>ParameterMissing\<close> the store's rejection of a query with an unbound parameter,
  \<open>CollaboratorError\<close> any other failure of the LLM client, the embedder, the ranking
  library or the graph store.
\<close>

datatype exn =
    KeyError pyval
  | IndexError
  | TypeError
  | AttributeError
  | ValueError string
  | UpdateFailed pyval pyval
  | ParameterMissing string
  | CollaboratorError string

definition bindE :: "exn + 'a \<Rightarrow> ('a \<Rightarrow> exn + 'b) \<Rightarrow> exn + 'b" where
  "bindE r f = (case r of Inl e \<Rightarrow> Inl e | Inr x \<Rightarrow> f x)"

text \<open>A comprehension whose element expression can raise: the first failure is the result.\<close>

fun mapE :: "('a \<Rightarrow> exn + 'b) \<Rightarrow> 'a list \<Rightarrow> exn + 'b list" where
  "mapE f [] = Inr []"
| "mapE f (x # xs) =
     (case f x of
        Inl e \<Rightarrow> Inl e
      | Inr y \<Rightarrow> (case mapE f xs of Inl e \<Rightarrow> Inl e | Inr ys \<Rightarrow> Inr (y # ys)))"

text \<open>\<^verbatim>\<open>v["key"]\<close> with a string literal as the key.\<close>

fun py_getitem :: "pyval \<Rightarrow> string \<Rightarrow> exn + pyval" where
  "py_getitem (PDict kvs) k =
     (case map_of kvs k of None \<Rightarrow> Inl (KeyError (PStr k)) | Some v \<Rightarrow> Inr v)"
| "py_getitem v k = Inl TypeError"

text \<open>\<^verbatim>\<open>v[i]\<close> with a non-negative integer literal as the index.\<close>

fun py_index :: "pyval \<Rightarrow> nat \<Rightarrow> exn + pyval" where
  "py_index (PList xs) i = (if i < length xs then Inr (xs ! i) else Inl IndexError)"
| "py_index (PText s) i = (if i < length s then Inr (PText [s ! i]) else Inl IndexError)"
| "py_index (PDict kvs) i = Inl (KeyError (PInt (int i)))"
| "py_index v i = Inl TypeError"

text \<open>\<^verbatim>\<open>for item in v\<close>: a list gives its elements, a dict its keys, a string its characters.\<close>

fun py_iter :: "pyval \<Rightarrow> exn + pyval list" where
  "py_iter (PList xs) = Inr xs"
| "py_iter (PDict kvs) = Inr (map (\<lambda>kv. PStr (fst kv)) kvs)"
| "py_iter (PText s) = Inr (map (\<lambda>c. PText [c]) s)"
| "py_iter v = Inl TypeError"

text \<open>Truth value of \<^verbatim>\<open>if v:\<close>.\<close>

fun py_truthy :: "pyval \<Rightarrow> bool" where
  "py_truthy PNone = False"
| "py_truthy (PText s) = (s \<noteq> [])"
| "py_truthy (PInt i) = (i \<noteq> 0)"
| "py_truthy (PList xs) = (xs \<noteq> [])"
| "py_truthy (PDict kvs) = (kvs \<noteq> [])"

text \<open>A dict key must be hashable.\<close>

fun py_hashable :: "pyval \<Rightarrow> bool" where
  "py_hashable (PList xs) = False"
| "py_hashable (PDict kvs) = False"
| "py_hashable v = True"

text \<open>\<^verbatim>\<open>d[k] = v\<close> on an insertion-ordered dict: an existing key keeps its place.\<close>

fun dict_set :: "'k \<Rightarrow> 'v \<Rightarrow> ('k \<times> 'v) list \<Rightarrow> ('k \<times> 'v) list" where
  "dict_set k v [] = [(k, v)]"
| "dict_set k v (kv # kvs) = (if fst kv = k then (k, v) # kvs else kv # dict_set k v kvs)"

text \<open>
  \<^verbatim>\<open>str.lower()\<close>. Below 256 the upper-case letters are A to Z and U+00C0 to U+00DE
  without the multiplication sign U+00D7, each 32 below its lower-case form, and no other
  code point below 256 changes. From 256 on, there are upper-case letters that have no
  lower-case form, which \<^verbatim>\<open>lower\<close> leaves as they are: \<open>wide_upper\<close> lists two of them,
  U+2102 (double-struck capital C) and U+1D400 (mathematical bold capital A). On a string
  of these code points, a \<open>covered\<close> string, \<open>lower\<close> is the method of Python, code point by
  code point. On any other string the result depends on the Unicode tables and on the
  context (one code point may become two, and a capital sigma depends on its neighbours);
  \<open>lower\<close> is left unspecified there, so that what is proved of it holds whatever the
  method returns. \<open>is_upper\<close> is exact below 256, and from 256 on it counts the listed
  code points only.
\<close>

definition wide_upper :: "nat list" where
  "wide_upper = [8450, 119808]"


definition lower_char :: "nat \<Rightarrow> nat" where
  "lower_char n =
     (if (65 \<le> n \<and> n \<le> 90) \<or> (192 \<le> n \<and> n \<le> 214) \<or> (216 \<le> n \<and> n \<le> 222)
      then n + 32 else n)"

definition covered :: "codepoints \<Rightarrow> bool" where
  "covered s = list_all (\<lambda>c. c < 256 \<or> c \<in> set wide_upper) s"

definition lower :: "codepoints \<Rightarrow> codepoints" where
  "lower s = (if covered s then map lower_char s else undefined s)"

text \<open>\<^verbatim>\<open>s.replace(" ", "_")\<close>: the space is U+0020, the underscore U+005F.\<close>

definition replace_space :: "codepoints \<Rightarrow> codepoints" where
  "replace_space s = map (\<lambda>c. if c = 32 then 95 else c) s"

text \<open>\<^verbatim>\<open>v.lower().replace(" ", "_")\<close>: only a string has the method \<^verbatim>\<open>lower\<close>.\<close>

fun normalize :: "pyval \<Rightarrow> exn + codepoints" where
  "normalize (PText s) = Inr (replace_space (lower s))"
| "normalize v = Inl AttributeError"

text \<open>\<^verbatim>\<open>PROMPT.replace("USER_ID", v)\<close> needs a string argument.\<close>

fun str_arg :: "pyval \<Rightarrow> exn + codepoints" where
  "str_arg (PText s) = Inr s"
| "str_arg v = Inl TypeError"

text \<open>\<^verbatim>\<open>s.split(" ")\<close>: every single space separates, empty pieces are kept.\<close>

fun split_space :: "codepoints \<Rightarrow> codepoints list" where
  "split_space [] = [[]]"
| "split_space (c # cs) =
     (if c = 32 then [] # split_space cs
      else (case split_space cs of [] \<Rightarrow> [[c]] | w # ws \<Rightarrow> (c # w) # ws))"

section \<open>The collaborators and the state\<close>

text \<open>
  A query parameter is a decoded value, an embedding vector (of the embedder's type \<open>'e\<close>)
  or a float.
\<close>

datatype 'e param = PVal pyval | PEmbedding 'e | PFloat real

type_synonym 'e params = "(string \<times> 'e param) list"

text \<open>
  The Cypher texts the module sends, one constructor per template. The two similarity
  templates are constants of \<^verbatim>\<open>mem0.graphs.utils\<close>; the others are written in the module,
  and the arguments of \<open>AddCypher\<close> (source type, destination type, relation) and of
  \<open>CreateQuery\<close> (relationship) are the strings its f-strings splice into the text.
\<close>

datatype cypher =
    FALKORDB_QUERY
  | NEO4J_QUERY
  | AddCypher codepoints codepoints codepoints
  | DeleteAllCypher
  | GetAllQuery
  | CheckAndCreateQuery
  | DeleteQuery
  | CreateQuery codepoints

text \<open>
  A result row, with cells of the store's type \<open>'c\<close>: a plain list of values, or a record
  of named fields as the neo4j driver returns it.
\<close>

datatype 'c row = RowList "'c list" | RowDict "(string \<times> 'c) list"

text \<open>\<^verbatim>\<open>row[i]\<close> with a non-negative integer literal.\<close>

fun row_index :: "'c row \<Rightarrow> nat \<Rightarrow> exn + 'c" where
  "row_index (RowList cs) i = (if i < length cs then Inr (cs ! i) else Inl IndexError)"
| "row_index (RowDict kvs) i = Inl (KeyError (PInt (int i)))"

text \<open>\<^verbatim>\<open>list(d.values())\<close>: only a record has \<^verbatim>\<open>values\<close>.\<close>

fun row_values :: "'c row \<Rightarrow> exn + 'c row" where
  "row_values (RowDict kvs) = Inr (RowList (map snd kvs))"
| "row_values (RowList cs) = Inl AttributeError"

datatype tool =
    ADD_MEMORY_STRUCT_TOOL_GRAPH
  | ADD_MEMORY_TOOL_GRAPH
  | EXTRACT_ENTITIES_STRUCT_TOOL
  | EXTRACT_ENTITIES_TOOL
  | NOOP_STRUCT_TOOL
  | NOOP_TOOL
  | RELATIONS_STRUCT_TOOL
  | RELATIONS_TOOL
  | UPDATE_MEMORY_STRUCT_TOOL_GRAPH
  | UPDATE_MEMORY_TOOL_GRAPH

text \<open>
  What a call of \<^verbatim>\<open>self.llm.generate_response\<close> is given. The prompt texts
  (\<^verbatim>\<open>EXTRACT_RELATIONS_PROMPT\<close>, \<^verbatim>\<open>get_update_memory_messages\<close>, \<^verbatim>\<open>format_entities\<close>) are
  not part of the module, so a request holds the data the module puts into the messages:
  \<^item> entity extraction: the user id, the query;
  \<^item> relation extraction with a custom prompt: the user id, the custom prompt, the data;
  \<^item> relation extraction without: the user id, the entity names, the data;
  \<^item> reconciliation: the retrieved rows and the extracted relations;
  each with the tools.
\<close>

datatype 'c llm_request =
    ExtractEntities pyval codepoints "tool list"
  | ExtractRelationsCustom codepoints string codepoints "tool list"
  | ExtractRelations codepoints "pyval list" codepoints "tool list"
  | UpdateMemory "'c row list" pyval "tool list"

text \<open>
  The object \<^verbatim>\<open>self\<close>: the configuration fields the methods read, the fields
  \<^verbatim>\<open>__init__\<close> sets, and the clients as functions. The graph store has a state of type
  \<open>'g\<close>; \<open>store_query\<close> is \<^verbatim>\<open>self.graph.query\<close>, and \<open>select_graph\<close> is the assignment
  \<^verbatim>\<open>self.graph._graph = self.graph._driver.select_graph(...)\<close>. \<open>bm25_ranking\<close> is the
  order \<^verbatim>\<open>np.argsort(scores)[::-1]\<close> that \<^verbatim>\<open>BM25Okapi(corpus)\<close> gives the documents for
  a tokenized query.
\<close>

record ('g, 'e, 'c) memory_graph =
  provider :: string
  custom_prompt :: "string option"
  llm_provider :: string
  threshold :: real
  generate_response :: "'c llm_request \<Rightarrow> exn + pyval"
  embed :: "pyval \<Rightarrow> exn + 'e"
  select_graph :: "'e param \<Rightarrow> 'g \<Rightarrow> 'g"
  store_query :: "cypher \<Rightarrow> 'e params \<Rightarrow> 'g \<Rightarrow> (exn + 'c row list) \<times> 'g"
  bm25_ranking :: "codepoints list \<Rightarrow> 'c list list \<Rightarrow> exn + nat list"

text \<open>The messages of the module's \<^verbatim>\<open>logger\<close>.\<close>

datatype log_entry =
    Error_in_search_tool exn
  | Debug_entity_type_map "(pyval \<times> pyval) list"
  | Debug_extracted_entities pyval
  | Info_updating_relationship pyval pyval pyval
  | Info_added nat
  | Info_returned nat
  | Info_retrieved nat

text \<open>A call on the graph driver, as it is made.\<close>

datatype 'e event = SelectGraph "'e param" | Query cypher "'e params"

text \<open>
  The state a method runs in: the store, the calls made on the driver so far (oldest
  first) and the log.
\<close>

record ('g, 'e) world =
  store :: 'g
  issued :: "'e event list"
  logged :: "log_entry list"

type_synonym ('a, 'g, 'e) action = "('g, 'e) world \<Rightarrow> (exn + 'a) \<times> ('g, 'e) world"

definition returnM :: "'a \<Rightarrow> ('a, 'g, 'e) action" where
  "returnM x = (\<lambda>w. (Inr x, w))"

definition raiseM :: "exn \<Rightarrow> ('a, 'g, 'e) action" where
  "raiseM e = (\<lambda>w. (Inl e, w))"

definition liftE :: "exn + 'a \<Rightarrow> ('a, 'g, 'e) action" where
  "liftE r = (\<lambda>w. (r, w))"

definition bindM :: "('a, 'g, 'e) action \<Rightarrow> ('a \<Rightarrow> ('b, 'g, 'e) action) \<Rightarrow> ('b, 'g, 'e) action" where
  "bindM m f = (\<lambda>w. case m w of (Inl e, w') \<Rightarrow> (Inl e, w') | (Inr x, w') \<Rightarrow> f x w')"

definition logger :: "log_entry \<Rightarrow> (unit, 'g, 'e) action" where
  "logger l = (\<lambda>w. (Inr (), w\<lparr>logged := logged w @ [l]\<rparr>))"

text \<open>
  A \<^verbatim>\<open>for\<close> loop over a list with an accumulator: an exception in the body ends the
  loop, and the state keeps what the body did before.
\<close>

fun foldM :: "('a \<Rightarrow> 'b \<Rightarrow> ('b, 'g, 'e) action) \<Rightarrow> 'a list \<Rightarrow> 'b \<Rightarrow> ('b, 'g, 'e) action" where
  "foldM f [] acc = returnM acc"
| "foldM f (x # xs) acc =
     (\<lambda>w. case f x acc w of
            (Inl e, w') \<Rightarrow> (Inl e, w')
          | (Inr acc', w') \<Rightarrow> foldM f xs acc' w')"

text \<open>\<^verbatim>\<open>params["key"]\<close> and \<^verbatim>\<open>filters["key"]\<close>.\<close>

definition lookup :: "(string \<times> 'v) list \<Rightarrow> string \<Rightarrow> exn + 'v" where
  "lookup d k = (case map_of d k of None \<Rightarrow> Inl (KeyError (PStr k)) | Some v \<Rightarrow> Inr v)"

section \<open>Query dispatch\<close>

text \<open>The two calls on the driver.\<close>

definition driver_select :: "('g, 'e, 'c) memory_graph \<Rightarrow> 'e param \<Rightarrow> (unit, 'g, 'e) action" where
  "driver_select self name =
     (\<lambda>w. (Inr (), w\<lparr>store := select_graph self name (store w),
                       issued := issued w @ [SelectGraph name]\<rparr>))"

definition driver_query ::
  "('g, 'e, 'c) memory_graph \<Rightarrow> cypher \<Rightarrow> 'e params \<Rightarrow> ('c row list, 'g, 'e) action" where
  "driver_query self query params =
     (\<lambda>w. case store_query self query params (store w) of
            (r, g) \<Rightarrow> (r, w\<lparr>store := g, issued := issued w @ [Query query params]\<rparr>))"

text \<open>\<^verbatim>\<open>MemoryGraph.graph_query\<close> (lines 357 to 379).\<close>

definition graph_query ::
  "('g, 'e, 'c) memory_graph \<Rightarrow> cypher \<Rightarrow> 'e params \<Rightarrow> ('c row list, 'g, 'e) action" where
  "graph_query self query params =
     bindM (if provider self = ''falkordb''
            then bindM (liftE (lookup params ''user_id'')) (driver_select self)
            else returnM ())
       (\<lambda>_. bindM (driver_query self query params)
          (\<lambda>query_output.
             if provider self = ''neo4j'' then liftE (mapE row_values query_output)
             else returnM query_output))"

section \<open>Retrieval\<close>

text \<open>
  A method whose Python name starts with an underscore has the prefix \<open>p_\<close> here
  (\<open>p_search\<close> is \<^verbatim>\<open>_search\<close>).
\<close>

definition structured :: "('g, 'e, 'c) memory_graph \<Rightarrow> bool" where
  "structured self = (llm_provider self \<in> set [''azure_openai_structured'', ''openai_structured''])"

text \<open>
  Lines 159 to 165 of \<^verbatim>\<open>_search\<close>: the \<^verbatim>\<open>try\<close> block that fills \<^verbatim>\<open>entity_type_map\<close>.
  The result is the map as it stands when the block ends, and the exception the
  \<^verbatim>\<open>except\<close> clause caught, if any. In \<^verbatim>\<open>entity_type_map[item["entity"]] = item["entity_type"]\<close>
  Python evaluates the right-hand side first.
\<close>

definition entities_of :: "pyval \<Rightarrow> exn + pyval list" where
  "entities_of search_results =
     bindE (py_getitem search_results ''tool_calls'')
       (\<lambda>calls. bindE (py_index calls 0)
          (\<lambda>call. bindE (py_getitem call ''arguments'')
             (\<lambda>arguments. bindE (py_getitem arguments ''entities'') py_iter)))"

fun fill_map ::
  "pyval list \<Rightarrow> (pyval \<times> pyval) list \<Rightarrow> (pyval \<times> pyval) list \<times> exn option" where
  "fill_map [] entity_type_map = (entity_type_map, None)"
| "fill_map (item # items) entity_type_map =
     (case py_getitem item ''entity_type'' of
        Inl e \<Rightarrow> (entity_type_map, Some e)
      | Inr entity_type \<Rightarrow>
          (case py_getitem item ''entity'' of
             Inl e \<Rightarrow> (entity_type_map, Some e)
           | Inr entity \<Rightarrow>
               if py_hashable entity
               then fill_map items (dict_set entity entity_type entity_type_map)
               else (entity_type_map, Some TypeError)))"

definition parse_entities :: "pyval \<Rightarrow> (pyval \<times> pyval) list \<times> exn option" where
  "parse_entities search_results =
     (case entities_of search_results of
        Inl e \<Rightarrow> ([], Some e)
      | Inr items \<Rightarrow> fill_map items [])"

text \<open>The body of the loop over the entities (lines 171 to 188).\<close>

definition retrieve_node ::
  "('g, 'e, 'c) memory_graph \<Rightarrow> (string \<times> pyval) list \<Rightarrow> int \<Rightarrow> pyval \<Rightarrow> 'c row list
     \<Rightarrow> ('c row list, 'g, 'e) action" where
  "retrieve_node self filters limit node result_relations =
     bindM (liftE (embed self node))
       (\<lambda>n_embedding.
     bindM (if provider self = ''falkordb'' then returnM FALKORDB_QUERY
            else if provider self = ''neo4j'' then returnM NEO4J_QUERY
            else raiseM (ValueError ''Unsupported graph database provider for querying''))
       (\<lambda>cypher_query.
     bindM (liftE (lookup filters ''user_id''))
       (\<lambda>user_id.
     bindM (graph_query self cypher_query
              [(''n_embedding'', PEmbedding n_embedding),
               (''threshold'', PFloat (threshold self)),
               (''user_id'', PVal user_id),
               (''limit'', PVal (PInt limit))])
       (\<lambda>ans. returnM (result_relations @ ans)))))"

text \<open>\<^verbatim>\<open>MemoryGraph._search\<close> (lines 144 to 190).\<close>

definition p_search ::
  "('g, 'e, 'c) memory_graph \<Rightarrow> codepoints \<Rightarrow> (string \<times> pyval) list \<Rightarrow> int
     \<Rightarrow> ('c row list \<times> (pyval \<times> pyval) list, 'g, 'e) action" where
  "p_search self query filters limit =
     bindM (liftE (lookup filters ''user_id''))
       (\<lambda>user_id.
     bindM (liftE (generate_response self
              (ExtractEntities user_id query
                 (if structured self then [EXTRACT_ENTITIES_STRUCT_TOOL] else [EXTRACT_ENTITIES_TOOL]))))
       (\<lambda>search_results.
     case parse_entities search_results of (entity_type_map, caught) \<Rightarrow>
     bindM (case caught of None \<Rightarrow> returnM () | Some e \<Rightarrow> logger (Error_in_search_tool e))
       (\<lambda>_.
     bindM (logger (Debug_entity_type_map entity_type_map))
       (\<lambda>_.
     bindM (foldM (retrieve_node self filters limit) (map fst entity_type_map) [])
       (\<lambda>result_relations. returnM (result_relations, entity_type_map))))))"

section \<open>Search\<close>

datatype 'a triple = Triple (source_of: 'a) (relationship_of: 'a) (target_of: 'a)

text \<open>\<^verbatim>\<open>xs[i]\<close> on a list the module built itself.\<close>

definition list_index :: "'a list \<Rightarrow> nat \<Rightarrow> exn + 'a" where
  "list_index xs i = (if i < length xs then Inr (xs ! i) else Inl IndexError)"

text \<open>
  \<^verbatim>\<open>BM25Okapi(documents).get_top_n(query, documents, n)\<close> of the library rank_bm25: the
  documents at the first \<open>n\<close> indices of the ranking.
\<close>

definition get_top_n ::
  "('g, 'e, 'c) memory_graph \<Rightarrow> codepoints list \<Rightarrow> 'c list list \<Rightarrow> nat \<Rightarrow> exn + 'c list list" where
  "get_top_n self query documents n =
     bindE (bm25_ranking self query documents)
       (\<lambda>order. mapE (list_index documents) (take n order))"

text \<open>\<^verbatim>\<open>MemoryGraph.search\<close> (lines 192 to 224).\<close>

definition search ::
  "('g, 'e, 'c) memory_graph \<Rightarrow> codepoints \<Rightarrow> (string \<times> pyval) list \<Rightarrow> int
     \<Rightarrow> ('c triple list, 'g, 'e) action" where
  "search self query filters limit =
     bindM (p_search self query filters limit)
       (\<lambda>found. case found of (search_output, entity_type_map) \<Rightarrow>
     if search_output = [] then returnM []
     else
     bindM (liftE (mapE (\<lambda>item.
              bindE (row_index item 0) (\<lambda>a.
              bindE (row_index item 2) (\<lambda>b.
              bindE (row_index item 4) (\<lambda>c. Inr [a, b, c])))) search_output))
       (\<lambda>search_outputs_sequence.
     bindM (liftE (get_top_n self (split_space query) search_outputs_sequence 5))
       (\<lambda>reranked_results.
     bindM (liftE (mapE (\<lambda>item.
              bindE (list_index item 0) (\<lambda>a.
              bindE (list_index item 1) (\<lambda>b.
              bindE (list_index item 2) (\<lambda>c. Inr (Triple a b c))))) reranked_results))
       (\<lambda>search_results.
     bindM (logger (Info_returned (length search_results)))
       (\<lambda>_. returnM search_results)))))"

section \<open>Bulk deletion and retrieval\<close>

text \<open>\<^verbatim>\<open>MemoryGraph.delete_all\<close> (lines 226 to 232).\<close>

definition delete_all ::
  "('g, 'e, 'c) memory_graph \<Rightarrow> (string \<times> pyval) list \<Rightarrow> (unit, 'g, 'e) action" where
  "delete_all self filters =
     bindM (liftE (lookup filters ''user_id''))
       (\<lambda>user_id.
     bindM (graph_query self DeleteAllCypher [(''user_id'', PVal user_id)])
       (\<lambda>_. returnM ()))"

text \<open>
  \<^verbatim>\<open>MemoryGraph.get_all\<close> (lines 234 to 265). The parameters of the query are
  \<^verbatim>\<open>{"user_id": filters["user_id"]}\<close>: the argument \<^verbatim>\<open>limit\<close> is not used in the body.
\<close>

definition get_all ::
  "('g, 'e, 'c) memory_graph \<Rightarrow> (string \<times> pyval) list \<Rightarrow> int \<Rightarrow> ('c triple list, 'g, 'e) action" where
  "get_all self filters limit =
     bindM (liftE (lookup filters ''user_id''))
       (\<lambda>user_id.
     bindM (graph_query self GetAllQuery [(''user_id'', PVal user_id)])
       (\<lambda>results.
     bindM (liftE (mapE (\<lambda>result.
              bindE (row_index result 0) (\<lambda>a.
              bindE (row_index result 1) (\<lambda>b.
              bindE (row_index result 2) (\<lambda>c. Inr (Triple a b c))))) results))
       (\<lambda>final_results.
     bindM (logger (Info_retrieved (length final_results)))
       (\<lambda>_. returnM final_results))))"

section \<open>Relation extraction and reconciliation\<close>

text \<open>\<^verbatim>\<open>MemoryGraph._extract_relations\<close> (lines 267 to 304).\<close>

definition p_extract_relations ::
  "('g, 'e, 'c) memory_graph \<Rightarrow> codepoints \<Rightarrow> (string \<times> pyval) list \<Rightarrow> (pyval \<times> pyval) list
     \<Rightarrow> (pyval, 'g, 'e) action" where
  "p_extract_relations self data filters entity_type_map =
     bindM (liftE (bindE (lookup filters ''user_id'') str_arg))
       (\<lambda>user_id.
     bindM (liftE (generate_response self
              (let tools = (if structured self then [RELATIONS_STRUCT_TOOL] else [RELATIONS_TOOL])
               in case custom_prompt self of
                    None \<Rightarrow> ExtractRelations user_id (map fst entity_type_map) data tools
                  | Some c \<Rightarrow>
                      if c \<noteq> [] then ExtractRelationsCustom user_id c data tools
                      else ExtractRelations user_id (map fst entity_type_map) data tools)))
       (\<lambda>extracted.
     bindM (liftE (bindE (py_getitem extracted ''tool_calls'')
              (\<lambda>calls.
                 if py_truthy calls
                 then bindE (py_index calls 0)
                        (\<lambda>call. bindE (py_getitem call ''arguments'')
                           (\<lambda>arguments. py_getitem arguments ''entities''))
                 else Inr (PList []))))
       (\<lambda>extracted_entities.
     bindM (logger (Debug_extracted_entities extracted_entities))
       (\<lambda>_. returnM extracted_entities))))"

text \<open>
  \<^verbatim>\<open>MemoryGraph._update_relationship\<close> (lines 306 to 355). Each of the three queries
  gets the parameters \<^verbatim>\<open>{"source": source, "target": target, "user_id": filters["user_id"]}\<close>.
\<close>

definition update_params :: "pyval \<Rightarrow> pyval \<Rightarrow> (string \<times> pyval) list \<Rightarrow> exn + 'e params" where
  "update_params source target filters =
     bindE (lookup filters ''user_id'')
       (\<lambda>user_id. Inr [(''source'', PVal source), (''target'', PVal target), (''user_id'', PVal user_id)])"

definition p_update_relationship ::
  "('g, 'e, 'c) memory_graph \<Rightarrow> pyval \<Rightarrow> pyval \<Rightarrow> pyval \<Rightarrow> (string \<times> pyval) list
     \<Rightarrow> (unit, 'g, 'e) action" where
  "p_update_relationship self source target relationship filters =
     bindM (logger (Info_updating_relationship source relationship target))
       (\<lambda>_.
     bindM (liftE (normalize relationship))
       (\<lambda>relationship.
     bindM (liftE (update_params source target filters))
       (\<lambda>params.
     bindM (graph_query self CheckAndCreateQuery params)
       (\<lambda>_.
     bindM (liftE (update_params source target filters))
       (\<lambda>params.
     bindM (graph_query self DeleteQuery params)
       (\<lambda>_.
     bindM (liftE (update_params source target filters))
       (\<lambda>params.
     bindM (graph_query self (CreateQuery relationship) params)
       (\<lambda>result.
     if result = [] then raiseM (UpdateFailed source target) else returnM ()))))))))"

text \<open>The body of the loop over \<^verbatim>\<open>memory_updates["tool_calls"]\<close> (lines 89 to 100).\<close>

definition apply_update ::
  "('g, 'e, 'c) memory_graph \<Rightarrow> (string \<times> pyval) list \<Rightarrow> pyval \<Rightarrow> pyval list
     \<Rightarrow> (pyval list, 'g, 'e) action" where
  "apply_update self filters item to_be_added =
     bindM (liftE (py_getitem item ''name''))
       (\<lambda>name.
     if name = PStr ''add_graph_memory''
     then bindM (liftE (py_getitem item ''arguments''))
            (\<lambda>arguments. returnM (to_be_added @ [arguments]))
     else if name = PStr ''update_graph_memory''
     then bindM (liftE (bindE (py_getitem item ''arguments'') (\<lambda>a. py_getitem a ''source'')))
            (\<lambda>source.
          bindM (liftE (bindE (py_getitem item ''arguments'') (\<lambda>a. py_getitem a ''destination'')))
            (\<lambda>destination.
          bindM (liftE (bindE (py_getitem item ''arguments'') (\<lambda>a. py_getitem a ''relationship'')))
            (\<lambda>relationship.
          bindM (p_update_relationship self source destination relationship filters)
            (\<lambda>_. returnM to_be_added))))
     else if name = PStr ''noop'' then returnM to_be_added
     else returnM to_be_added)"

text \<open>The body of the loop over \<^verbatim>\<open>to_be_added\<close> (lines 104 to 138).\<close>

definition write_addition ::
  "('g, 'e, 'c) memory_graph \<Rightarrow> (string \<times> pyval) list \<Rightarrow> pyval \<Rightarrow> codepoints triple list
     \<Rightarrow> (codepoints triple list, 'g, 'e) action" where
  "write_addition self filters item returned_entities =
     bindM (liftE (bindE (py_getitem item ''source'') normalize))
       (\<lambda>source.
     bindM (liftE (bindE (py_getitem item ''source_type'') normalize))
       (\<lambda>source_type.
     bindM (liftE (bindE (py_getitem item ''relationship'') normalize))
       (\<lambda>relation.
     bindM (liftE (bindE (py_getitem item ''destination'') normalize))
       (\<lambda>destination.
     bindM (liftE (bindE (py_getitem item ''destination_type'') normalize))
       (\<lambda>destination_type.
     bindM (liftE (embed self (PText source)))
       (\<lambda>source_embedding.
     bindM (liftE (embed self (PText destination)))
       (\<lambda>dest_embedding.
     bindM (liftE (lookup filters ''user_id''))
       (\<lambda>user_id.
     bindM (graph_query self (AddCypher source_type destination_type relation)
              [(''source_name'', PVal (PText source)),
               (''dest_name'', PVal (PText destination)),
               (''source_embedding'', PEmbedding source_embedding),
               (''dest_embedding'', PEmbedding dest_embedding),
               (''user_id'', PVal user_id)])
       (\<lambda>_. returnM (returned_entities @ [Triple source relation destination]))))))))))"

text \<open>
  Lines 65 to 85 of \<^verbatim>\<open>MemoryGraph.add\<close>: retrieval, relation extraction and the
  reconciliation call, whose result is \<^verbatim>\<open>memory_updates\<close>.
\<close>

definition memory_updates ::
  "('g, 'e, 'c) memory_graph \<Rightarrow> codepoints \<Rightarrow> (string \<times> pyval) list \<Rightarrow> (pyval, 'g, 'e) action" where
  "memory_updates self data filters =
     bindM (p_search self data filters 100)
       (\<lambda>found. case found of (search_output, entity_type_map) \<Rightarrow>
     bindM (p_extract_relations self data filters entity_type_map)
       (\<lambda>extracted_relations.
     liftE (generate_response self
              (UpdateMemory search_output extracted_relations
                 (if structured self
                  then [UPDATE_MEMORY_STRUCT_TOOL_GRAPH, ADD_MEMORY_STRUCT_TOOL_GRAPH, NOOP_STRUCT_TOOL]
                  else [UPDATE_MEMORY_TOOL_GRAPH, ADD_MEMORY_TOOL_GRAPH, NOOP_TOOL])))))"

text \<open>\<^verbatim>\<open>MemoryGraph.add\<close> (lines 55 to 142).\<close>

definition add ::
  "('g, 'e, 'c) memory_graph \<Rightarrow> codepoints \<Rightarrow> (string \<times> pyval) list \<Rightarrow> (codepoints triple list, 'g, 'e) action" where
  "add self data filters =
     bindM (memory_updates self data filters)
       (\<lambda>memory_updates.
     bindM (liftE (bindE (py_getitem memory_updates ''tool_calls'') py_iter))
       (\<lambda>items.
     bindM (foldM (apply_update self filters) items [])
       (\<lambda>to_be_added.
     bindM (foldM (write_addition self filters) to_be_added [])
       (\<lambda>returned_entities.
     bindM (logger (Info_added (length to_be_added)))
       (\<lambda>_. returnM returned_entities)))))"

section \<open>What the claims speak of\<close>












text \<open>
  Modelled from the spec: the placeholders of the two similarity templates
  \<^verbatim>\<open>FALKORDB_QUERY\<close> and \<^verbatim>\<open>NEO4J_QUERY\<close>, whose texts (constants of
  \<^verbatim>\<open>mem0.graphs.utils\<close>) are not in the module; the spec names their parameters: the
  embedding vector, the threshold, the user id and the limit.
\<close>

definition similarity_placeholders :: "string list" where
  "similarity_placeholders = [''n_embedding'', ''threshold'', ''user_id'', ''limit'']"

text \<open>
  The placeholders (\<^verbatim>\<open>$name\<close>) in the text of each query, as the module writes them.
  The text of \<^verbatim>\<open>get_all\<close> (lines 248 to 252) has \<^verbatim>\<open>$user_id\<close> and \<^verbatim>\<open>$limit\<close>.
\<close>

fun placeholders :: "cypher \<Rightarrow> string list" where
  "placeholders FALKORDB_QUERY = similarity_placeholders"
| "placeholders NEO4J_QUERY = similarity_placeholders"
| "placeholders (AddCypher source_type destination_type relation) =
     [''source_name'', ''user_id'', ''source_embedding'', ''dest_name'', ''dest_embedding'']"
| "placeholders DeleteAllCypher = [''user_id'']"
| "placeholders GetAllQuery = [''user_id'', ''limit'']"
| "placeholders CheckAndCreateQuery = [''source'', ''user_id'', ''target'']"
| "placeholders DeleteQuery = [''source'', ''user_id'', ''target'']"
| "placeholders (CreateQuery relationship) = [''source'', ''user_id'', ''target'']"

definition unbound :: "cypher \<Rightarrow> 'e params \<Rightarrow> string list" where
  "unbound query params = filter (\<lambda>p. map_of params p = None) (placeholders query)"

text \<open>
  A graph database rejects a query whose text uses a parameter that the call does not
  bind. \<open>strict_store\<close> puts this check in front of a store.
\<close>

definition strict_store ::
  "(cypher \<Rightarrow> 'e params \<Rightarrow> 'g \<Rightarrow> (exn + 'c row list) \<times> 'g)
     \<Rightarrow> cypher \<Rightarrow> 'e params \<Rightarrow> 'g \<Rightarrow> (exn + 'c row list) \<times> 'g" where
  "strict_store inner query params g =
     (case unbound query params of
        [] \<Rightarrow> inner query params g
      | p # ps \<Rightarrow> (Inl (ParameterMissing p), g))"

definition strict :: "('g, 'e, 'c) memory_graph \<Rightarrow> ('g, 'e, 'c) memory_graph" where
  "strict self = self\<lparr>store_query := strict_store (store_query self)\<rparr>"

text \<open>
  A reconciliation decision is an addition when its name is \<^verbatim>\<open>add_graph_memory\<close>; the
  triple of an addition has the normalized source, relationship and destination of its
  arguments.
\<close>

definition is_add_decision :: "pyval \<Rightarrow> bool" where
  "is_add_decision item = (py_getitem item ''name'' = Inr (PStr ''add_graph_memory''))"

definition arguments_triple :: "pyval \<Rightarrow> exn + codepoints triple" where
  "arguments_triple arguments =
     bindE (bindE (py_getitem arguments ''source'') normalize) (\<lambda>s.
     bindE (bindE (py_getitem arguments ''relationship'') normalize) (\<lambda>r.
     bindE (bindE (py_getitem arguments ''destination'') normalize) (\<lambda>d.
     Inr (Triple s r d))))"

definition decision_triple :: "pyval \<Rightarrow> exn + codepoints triple" where
  "decision_triple item = bindE (py_getitem item ''arguments'') arguments_triple"

text \<open>One step of \<open>bindM\<close>, for running the methods on concrete inputs.\<close>

definition seqM :: "(exn + 'a) \<times> 's \<Rightarrow> ('a \<Rightarrow> 's \<Rightarrow> (exn + 'b) \<times> 's) \<Rightarrow> (exn + 'b) \<times> 's" where
  "seqM p f = (case p of (Inl e, w') \<Rightarrow> (Inl e, w') | (Inr x, w') \<Rightarrow> f x w')"

text \<open>
  The configuration error of line 179, the tools of the extraction request (lines 145 to
  147), and what \<^verbatim>\<open>_search\<close> logs after parsing (lines 165 and 167).
\<close>

definition unsupported :: exn where
  "unsupported = ValueError ''Unsupported graph database provider for querying''"

definition entity_tools :: "('g, 'e, 'c) memory_graph \<Rightarrow> tool list" where
  "entity_tools self =
     (if structured self then [EXTRACT_ENTITIES_STRUCT_TOOL] else [EXTRACT_ENTITIES_TOOL])"

definition parse_log :: "(pyval \<times> pyval) list \<Rightarrow> exn option \<Rightarrow> log_entry list" where
  "parse_log entity_type_map caught =
     (case caught of None \<Rightarrow> [] | Some e \<Rightarrow> [Error_in_search_tool e]) @
     [Debug_entity_type_map entity_type_map]"

text \<open>
  The entry of a well-formed item of the extraction response: its entity (a hashable
  value) and its entity type. \<open>entries\<close> is the map that a list of well-formed items
  gives, in the order of the items.
\<close>

definition entry_of :: "pyval \<Rightarrow> (pyval \<times> pyval) option" where
  "entry_of item =
     (case (py_getitem item ''entity'', py_getitem item ''entity_type'') of
        (Inr entity, Inr entity_type) \<Rightarrow>
          if py_hashable entity then Some (entity, entity_type) else None
      | _ \<Rightarrow> None)"

fun entries :: "pyval list \<Rightarrow> (pyval \<times> pyval) list \<Rightarrow> (pyval \<times> pyval) list" where
  "entries [] m = m"
| "entries (item # items) m =
     entries items (case entry_of item of Some (k, t) \<Rightarrow> dict_set k t m | None \<Rightarrow> m)"



section \<open>An example store and client\<close>

text \<open>
  A small in-memory store to run the methods against: named nodes with their owner, and
  typed edges (source name, type, target name, owner). It keeps no labels and no
  embeddings, and it answers a query whatever parameters it is given.
\<close>

record example_graph =
  selected :: "nat param option"
  nodes :: "(pyval \<times> pyval) list"
  edges :: "(pyval \<times> codepoints \<times> pyval \<times> pyval) list"

definition example_param :: "nat params \<Rightarrow> string \<Rightarrow> pyval" where
  "example_param params k = (case map_of params k of Some (PVal v) \<Rightarrow> v | _ \<Rightarrow> PNone)"

definition example_limit :: "nat params \<Rightarrow> 'a list \<Rightarrow> 'a list" where
  "example_limit params rows =
     (case map_of params ''limit'' of Some (PVal (PInt n)) \<Rightarrow> take (nat n) rows | _ \<Rightarrow> rows)"

definition example_merge :: "'a \<Rightarrow> 'a list \<Rightarrow> 'a list" where
  "example_merge x xs = (if x \<in> set xs then xs else xs @ [x])"

fun example_query ::
  "cypher \<Rightarrow> nat params \<Rightarrow> example_graph \<Rightarrow> (exn + pyval row list) \<times> example_graph" where
  "example_query DeleteAllCypher ps g =
     (Inr [], g\<lparr>nodes := filter (\<lambda>n. snd n \<noteq> example_param ps ''user_id'') (nodes g),
               edges := filter (\<lambda>e. snd (snd (snd e)) \<noteq> example_param ps ''user_id'') (edges g)\<rparr>)"
| "example_query GetAllQuery ps g =
     (Inr (example_limit ps
        (map (\<lambda>e. RowList [fst e, PText (fst (snd e)), fst (snd (snd e))])
           (filter (\<lambda>e. snd (snd (snd e)) = example_param ps ''user_id'') (edges g)))), g)"
| "example_query CheckAndCreateQuery ps g =
     (Inr [], g\<lparr>nodes :=
        example_merge (example_param ps ''target'', example_param ps ''user_id'')
          (example_merge (example_param ps ''source'', example_param ps ''user_id'') (nodes g))\<rparr>)"
| "example_query DeleteQuery ps g =
     (Inr [], g\<lparr>edges := filter (\<lambda>e. \<not> (fst e = example_param ps ''source'' \<and>
                                        fst (snd (snd e)) = example_param ps ''target'' \<and>
                                        snd (snd (snd e)) = example_param ps ''user_id'')) (edges g)\<rparr>)"
| "example_query (CreateQuery r) ps g =
     (if (example_param ps ''source'', example_param ps ''user_id'') \<in> set (nodes g) \<and>
         (example_param ps ''target'', example_param ps ''user_id'') \<in> set (nodes g)
      then (Inr [RowList [example_param ps ''source'', PText r, example_param ps ''target'']],
            g\<lparr>edges := edges g @ [(example_param ps ''source'', r, example_param ps ''target'',
                                     example_param ps ''user_id'')]\<rparr>)
      else (Inr [], g))"
| "example_query (AddCypher st dt r) ps g =
     (Inr [RowList [example_param ps ''source_name'', PText r, example_param ps ''dest_name'']],
      g\<lparr>nodes :=
          example_merge (example_param ps ''dest_name'', example_param ps ''user_id'')
            (example_merge (example_param ps ''source_name'', example_param ps ''user_id'') (nodes g)),
        edges :=
          example_merge (example_param ps ''source_name'', r, example_param ps ''dest_name'',
                         example_param ps ''user_id'') (edges g)\<rparr>)"
| "example_query similarity ps g =
     (Inr (example_limit ps
        (map (\<lambda>e. RowList [fst e, PInt 0, PText (fst (snd e)), PInt 0, fst (snd (snd e)), PInt 0, PInt 1])
           (filter (\<lambda>e. snd (snd (snd e)) = example_param ps ''user_id'') (edges g)))), g)"

text \<open>The same store behind a driver that returns records.\<close>

definition example_records ::
  "cypher \<Rightarrow> nat params \<Rightarrow> example_graph \<Rightarrow> (exn + pyval row list) \<times> example_graph" where
  "example_records q ps g =
     (case example_query q ps g of
        (Inl e, g') \<Rightarrow> (Inl e, g')
      | (Inr rows, g') \<Rightarrow>
          (Inr (map (\<lambda>r. case r of
                        RowList cs \<Rightarrow> RowDict (zip [''a'', ''b'', ''c'', ''d'', ''e'', ''f'', ''g''] cs)
                      | RowDict kvs \<Rightarrow> RowDict kvs) rows), g'))"

text \<open>A scripted LLM client: the entities, the relations and the reconciliation decisions it answers with.\<close>

definition example_call :: "string \<Rightarrow> pyval \<Rightarrow> pyval" where
  "example_call name arguments = PDict [(''name'', PStr name), (''arguments'', arguments)]"

definition example_llm :: "pyval \<Rightarrow> pyval list \<Rightarrow> pyval llm_request \<Rightarrow> exn + pyval" where
  "example_llm entities decisions request =
     (case request of
        ExtractEntities user_id query tools \<Rightarrow> Inr entities
      | ExtractRelationsCustom user_id custom data tools \<Rightarrow> Inr (PDict [(''tool_calls'', PList [])])
      | ExtractRelations user_id names data tools \<Rightarrow> Inr (PDict [(''tool_calls'', PList [])])
      | UpdateMemory rows extracted tools \<Rightarrow> Inr (PDict [(''tool_calls'', PList decisions)]))"

definition example_embed :: "pyval \<Rightarrow> exn + nat" where
  "example_embed v = (case v of PText s \<Rightarrow> Inr (length s) | _ \<Rightarrow> Inl TypeError)"

definition example_self ::
  "string \<Rightarrow> (cypher \<Rightarrow> nat params \<Rightarrow> example_graph \<Rightarrow> (exn + pyval row list) \<times> example_graph)
     \<Rightarrow> pyval \<Rightarrow> pyval list \<Rightarrow> (example_graph, nat, pyval) memory_graph" where
  "example_self name query_fn entities decisions =
     \<lparr>provider = name, custom_prompt = None, llm_provider = ''openai_structured'',
      threshold = 0.7, generate_response = example_llm entities decisions,
      embed = example_embed, select_graph = (\<lambda>n g. g\<lparr>selected := Some n\<rparr>),
      store_query = query_fn, bm25_ranking = (\<lambda>query documents. Inr (rev [0..<length documents]))\<rparr>"

text \<open>
  The state before a call: the graph with the given edges and their end nodes, no graph
  selected, no call made, nothing logged.
\<close>

definition example_world :: "(pyval \<times> codepoints \<times> pyval \<times> pyval) list \<Rightarrow> (example_graph, nat) world" where
  "example_world es =
     \<lparr>store = \<lparr>selected = None, nodes = remdups (concat (map (\<lambda>e. [(fst e, snd (snd (snd e))), (fst (snd (snd e)), snd (snd (snd e)))]) es)), edges = es\<rparr>,
      issued = [], logged = []\<rparr>"

text \<open>Extraction responses, reconciliation decisions, filters and graphs of the examples.\<close>

definition example_entities :: "pyval list \<Rightarrow> pyval" where
  "example_entities items = PDict [(''tool_calls'', PList [example_call ''extract_entities'' (PDict [(''entities'', PList items)])])]"

definition example_addition :: pyval where
  "example_addition = example_call ''add_graph_memory''
     (PDict [(''source'', PStr ''Alice Smith''), (''source_type'', PStr ''Person''),
             (''relationship'', PStr ''Works At''), (''destination'', PStr ''Acme Corp''),
             (''destination_type'', PStr ''Organization'')])"

definition example_filters :: "(string \<times> pyval) list" where
  "example_filters = [(''user_id'', PStr ''u1'')]"

definition example_works :: "(pyval \<times> codepoints \<times> pyval \<times> pyval) list" where
  "example_works =
     [(PStr ''u1'', ustr ''works_at'', PStr ''acme'', PStr ''u1''),
      (PStr ''u1'', ustr ''lives_in'', PStr ''paris'', PStr ''u1'')]"

definition example_acme :: pyval where
  "example_acme = example_entities
     [PDict [(''entity'', PStr ''Acme''), (''entity_type'', PStr ''organization'')]]"

definition example_update :: pyval where
  "example_update = example_call ''update_graph_memory''
     (PDict [(''source'', PStr ''Alice Smith''), (''destination'', PStr ''Beta Inc''),
             (''relationship'', PStr ''Works At'')])"

definition example_noop :: pyval where
  "example_noop = example_call ''noop'' (PDict [])"

definition example_second_addition :: pyval where
  "example_second_addition = example_call ''add_graph_memory''
     (PDict [(''source'', PStr ''u1''), (''source_type'', PStr ''person''),
             (''relationship'', PStr ''lives in''), (''destination'', PStr ''Paris''),
             (''destination_type'', PStr ''City'')])"

definition example_decisions :: "pyval list" where
  "example_decisions = [example_addition, example_update, example_noop, example_second_addition]"

text \<open>A store whose edge creation returns no row.\<close>

definition example_no_create ::
  "cypher \<Rightarrow> nat params \<Rightarrow> example_graph \<Rightarrow> (exn + pyval row list) \<times> example_graph" where
  "example_no_create q ps g =
     (case q of CreateQuery r \<Rightarrow> (Inr [], g) | _ \<Rightarrow> example_query q ps g)"

definition example_beta :: "(pyval \<times> codepoints \<times> pyval \<times> pyval) list" where
  "example_beta = [(PStr ''Alice Smith'', ustr ''works_at'', PStr ''Beta Inc'', PStr ''u1'')]"

definition example_failing :: "(example_graph, nat, pyval) memory_graph" where
  "example_failing =
     example_self ''falkordb'' example_no_create PNone [example_noop, example_update, example_addition]"

definition example_update_params :: "nat params" where
  "example_update_params =
     [(''source'', PVal (PStr ''Alice Smith'')), (''target'', PVal (PStr ''Beta Inc'')),
      (''user_id'', PVal (PStr ''u1''))]"

text \<open>States of the examples, by the edges left, the calls made and the log.\<close>

definition example_after :: "(pyval \<times> codepoints \<times> pyval \<times> pyval) list \<Rightarrow> nat event list \<Rightarrow> log_entry list
    \<Rightarrow> (example_graph, nat) world" where
  "example_after es evs ls =
     \<lparr>store = \<lparr>selected = (if evs = [] then None else Some (PVal (PStr ''u1''))),
                nodes = [(PStr ''Alice Smith'', PStr ''u1''), (PStr ''Beta Inc'', PStr ''u1'')],
                edges = es\<rparr>,
      issued = evs, logged = ls\<rparr>"

definition example_six :: "(pyval \<times> codepoints \<times> pyval \<times> pyval) list" where
  "example_six =
     [(PStr ''u1'', ustr ''works_at'', PStr ''acme'', PStr ''u1''),
      (PStr ''u1'', ustr ''lives_in'', PStr ''paris'', PStr ''u1''),
      (PStr ''u1'', ustr ''likes'', PStr ''tea'', PStr ''u1''),
      (PStr ''u1'', ustr ''owns'', PStr ''bike'', PStr ''u1''),
      (PStr ''u1'', ustr ''knows'', PStr ''bob'', PStr ''u1''),
      (PStr ''u1'', ustr ''reads'', PStr ''news'', PStr ''u1'')]"

definition example_found :: "(example_graph, nat) world" where
  "example_found =
     \<lparr>store = \<lparr>selected = Some (PVal (PStr ''u1'')), nodes = [], edges = []\<rparr>,
      issued = [SelectGraph (PVal (PStr ''u1'')),
                Query FALKORDB_QUERY
                  [(''n_embedding'', PEmbedding 4), (''threshold'', PFloat 0.7),
                   (''user_id'', PVal (PStr ''u1'')), (''limit'', PVal (PInt 100))]],
      logged = [Debug_entity_type_map [(PStr ''Acme'', PStr ''organization'')]]\<rparr>"

definition example_unsupported :: "pyval \<Rightarrow> (example_graph, nat, pyval) memory_graph" where
  "example_unsupported entities = example_self ''memgraph'' example_query entities []"

definition example_broken :: pyval where
  "example_broken = example_entities
     [PDict [(''entity'', PStr ''u1''), (''entity_type'', PStr ''person'')],
      PDict [(''entity'', PStr ''Acme''), (''entity_type'', PStr ''organization'')],
      PDict [(''entity'', PStr ''Paris'')],
      PDict [(''entity'', PStr ''Bob''), (''entity_type'', PStr ''person'')]]"



section \<open>Lemmas\<close>


lemma ustr_inject [simp]: "ustr a = ustr b \<longleftrightarrow> a = b"
  unfolding ustr_def by (rule inj_map_eq_map) (simp add: inj_on_def)

lemma length_ustr [simp]: "length (ustr s) = length s"
  by (simp add: ustr_def)









































lemma bindM_InrE:
  assumes "bindM m f w = (Inr y, w')"
  obtains x w1 where "m w = (Inr x, w1)" and "f x w1 = (Inr y, w')"
  using assms by (auto simp: bindM_def split: prod.splits sum.splits)

lemma liftE_InrE:
  assumes "liftE r w = (Inr x, w')"
  obtains "r = Inr x" and "w' = w"
  using assms by (simp add: liftE_def)

lemma returnM_InrE:
  assumes "returnM x w = (Inr y, w')"
  obtains "y = x" and "w' = w"
  using assms by (simp add: returnM_def)






lemma logger_InrE:
  assumes "logger l w = (Inr x, w')"
  obtains "issued w' = issued w"
  using assms by (auto simp: logger_def)




lemma graph_query_strict_get_all:
  "fst (graph_query (strict self) GetAllQuery [(''user_id'', u)] w) = Inl (ParameterMissing ''limit'')"
  by (simp add: graph_query_def bindM_def liftE_def lookup_def driver_select_def returnM_def
      driver_query_def strict_def strict_store_def unbound_def)

lemma get_all_strict:
  "fst (get_all (strict self) ((''user_id'', u) # rest) limit w) = Inl (ParameterMissing ''limit'')"
proof -
  obtain r w' where q: "graph_query (strict self) GetAllQuery [(''user_id'', PVal u)] w = (r, w')"
    by (cases "graph_query (strict self) GetAllQuery [(''user_id'', PVal u)] w")
  with graph_query_strict_get_all [of self "PVal u" w] have "r = Inl (ParameterMissing ''limit'')"
    by simp
  with q show ?thesis
    by (simp add: get_all_def lookup_def bindM_def liftE_def)
qed


lemma delete_then_get_all_strict:
  "fst (bindM (delete_all (strict self) ((''user_id'', u) # rest))
          (\<lambda>_. get_all (strict self) ((''user_id'', u) # rest) limit) w) \<noteq> Inr []"
proof (cases "delete_all (strict self) ((''user_id'', u) # rest) w")
  case (Pair r w1)
  show ?thesis
  proof (cases r)
    case (Inl e)
    with Pair show ?thesis by (simp add: bindM_def)
  next
    case (Inr x)
    with Pair get_all_strict [of self u rest limit w1] show ?thesis
      by (auto simp: bindM_def)
  qed
qed

lemma mapE_row_values: "mapE row_values (map RowDict recs) = Inr (map (\<lambda>kvs. RowList (map snd kvs)) recs)"
  by (induction recs) simp_all

lemma mapE_bindE:
  "mapE f xs = Inr ys \<Longrightarrow> mapE g ys = Inr zs \<Longrightarrow> mapE (\<lambda>x. bindE (f x) g) xs = Inr zs"
proof (induction xs arbitrary: ys zs)
  case Nil
  then show ?case by simp
next
  case (Cons x xs)
  from Cons.prems(1) obtain y ys' where
    y: "f x = Inr y" "mapE f xs = Inr ys'" "ys = y # ys'"
    by (auto split: sum.splits)
  with Cons.prems(2) obtain z zs' where
    z: "g y = Inr z" "mapE g ys' = Inr zs'" "zs = z # zs'"
    by (auto split: sum.splits)
  from Cons.IH [OF y(2) z(2)] y z show ?case
    by (simp add: bindE_def)
qed

lemma mapE_length: "mapE f xs = Inr ys \<Longrightarrow> length ys = length xs"
  by (induction xs arbitrary: ys) (auto split: sum.splits)

lemma bindM_liftE_Inr: "bindM (liftE (Inr x)) f = f x"
  by (simp add: bindM_def liftE_def)

lemma apply_update_result:
  assumes "apply_update self filters item acc w = (Inr acc1, w1)"
  shows "if is_add_decision item
         then \<exists>a. py_getitem item ''arguments'' = Inr a \<and> acc1 = acc @ [a]
         else acc1 = acc"
proof -
  from assms obtain name where name: "py_getitem item ''name'' = Inr name"
    unfolding apply_update_def by (elim bindM_InrE liftE_InrE)
  show ?thesis
  proof (cases "name = PStr ''add_graph_memory''")
    case True
    with assms name show ?thesis
      by (auto simp: apply_update_def is_add_decision_def bindM_liftE_Inr
          elim!: bindM_InrE liftE_InrE returnM_InrE)
  next
    case False
    with assms name show ?thesis
      by (auto simp: apply_update_def is_add_decision_def bindM_liftE_Inr
          elim!: bindM_InrE liftE_InrE returnM_InrE split: if_splits)
  qed
qed

lemma foldM_apply_update_result:
  "foldM (apply_update self filters) items acc w = (Inr tba, w') \<Longrightarrow>
   \<exists>args. mapE (\<lambda>i. py_getitem i ''arguments'') (filter is_add_decision items) = Inr args \<and>
          tba = acc @ args"
proof (induction items arbitrary: acc w)
  case Nil
  then show ?case by (simp add: returnM_def)
next
  case (Cons item items)
  from Cons.prems obtain acc1 w1 where
    step: "apply_update self filters item acc w = (Inr acc1, w1)"
    and rest: "foldM (apply_update self filters) items acc1 w1 = (Inr tba, w')"
    by (auto split: prod.splits sum.splits)
  from Cons.IH [OF rest] obtain args where
    args: "mapE (\<lambda>i. py_getitem i ''arguments'') (filter is_add_decision items) = Inr args"
      "tba = acc1 @ args" by blast
  show ?case
  proof (cases "is_add_decision item")
    case True
    with apply_update_result [OF step] obtain a where
      "py_getitem item ''arguments'' = Inr a" "acc1 = acc @ [a]" by auto
    with args True show ?thesis by simp
  next
    case False
    with apply_update_result [OF step] have "acc1 = acc" by simp
    with args False show ?thesis by simp
  qed
qed

lemma write_addition_result:
  assumes "write_addition self filters item acc w = (Inr out, w')"
  shows "\<exists>t. arguments_triple item = Inr t \<and> out = acc @ [t]"
proof -
  from assms obtain s r d where
    "bindE (py_getitem item ''source'') normalize = Inr s"
    "bindE (py_getitem item ''relationship'') normalize = Inr r"
    "bindE (py_getitem item ''destination'') normalize = Inr d"
    "out = acc @ [Triple s r d]"
    unfolding write_addition_def
    by (elim bindM_InrE liftE_InrE returnM_InrE) simp
  then show ?thesis
    by (simp add: arguments_triple_def bindE_def)
qed

lemma foldM_write_addition_result:
  "foldM (write_addition self filters) items acc w = (Inr out, w') \<Longrightarrow>
   \<exists>ts. mapE arguments_triple items = Inr ts \<and> out = acc @ ts"
proof (induction items arbitrary: acc w)
  case Nil
  then show ?case by (simp add: returnM_def)
next
  case (Cons item items)
  from Cons.prems obtain acc1 w1 where
    step: "write_addition self filters item acc w = (Inr acc1, w1)"
    and rest: "foldM (write_addition self filters) items acc1 w1 = (Inr out, w')"
    by (auto split: prod.splits sum.splits)
  from write_addition_result [OF step] obtain t where
    t: "arguments_triple item = Inr t" "acc1 = acc @ [t]" by blast
  from Cons.IH [OF rest] obtain ts where
    ts: "mapE arguments_triple items = Inr ts" "out = acc1 @ ts" by blast
  from t ts show ?case by simp
qed

lemma seqM_Inl: "seqM (Inl e, w) f = (Inl e, w)" by (simp add: seqM_def)

lemma seqM_Inr: "seqM (Inr x, w) f = f x w" by (simp add: seqM_def)

lemma bindM_app: "bindM m f w = seqM (m w) f" by (simp add: seqM_def bindM_def)

lemma foldM_Cons_app: "foldM f (x # xs) acc w = seqM (f x acc w) (foldM f xs)" by (simp add: seqM_def)

lemma foldM_Nil_app: "foldM f [] acc w = (Inr acc, w)" by (simp add: returnM_def)

lemma seqM_cong: "p = p' \<Longrightarrow> seqM p f = seqM p' f" by simp

lemma bindM_cong0: "m = m' \<Longrightarrow> bindM m f = bindM m' f" by simp

lemma bindE_Inl: "bindE (Inl e) f = Inl e" by (simp add: bindE_def)

lemma bindE_Inr: "bindE (Inr x) f = f x" by (simp add: bindE_def)

lemma bindE_cong0: "r = r' \<Longrightarrow> bindE r f = bindE r' f" by simp

lemma liftE_app: "liftE r w = (r, w)" by (simp add: liftE_def)

lemma returnM_app: "returnM x w = (Inr x, w)" by (simp add: returnM_def)

lemma raiseM_app: "raiseM e w = (Inl e, w)" by (simp add: raiseM_def)

lemma logger_app: "logger l w = (Inr (), w\<lparr>logged := logged w @ [l]\<rparr>)" by (simp add: logger_def)


lemmas run_defs = add_def memory_updates_def p_search_def p_extract_relations_def
  apply_update_def write_addition_def p_update_relationship_def retrieve_node_def
  graph_query_def driver_query_def driver_select_def update_params_def
  parse_entities_def entities_of_def structured_def lookup_def search_def get_all_def delete_all_def
  get_top_n_def list_index_def
  bindM_app seqM_Inl seqM_Inr foldM_Cons_app foldM_Nil_app bindE_Inl bindE_Inr liftE_app returnM_app
  raiseM_app logger_app

lemmas example_defs = example_self_def example_world_def example_llm_def example_embed_def
  example_entities_def example_addition_def example_filters_def example_call_def
  example_param_def example_limit_def example_merge_def example_update_def example_acme_def
  example_decisions_def example_noop_def example_second_addition_def example_works_def
  example_records_def

lemma example_normalize:
  "normalize (PStr ''Works At'') = Inr (ustr ''works_at'')"
  "normalize (PStr ''Alice Smith'') = Inr (ustr ''alice_smith'')"
  "normalize (PStr ''Acme Corp'') = Inr (ustr ''acme_corp'')"
  "normalize (PStr ''Person'') = Inr (ustr ''person'')"
  "normalize (PStr ''person'') = Inr (ustr ''person'')"
  "normalize (PStr ''Organization'') = Inr (ustr ''organization'')"
  "normalize (PStr ''u1'') = Inr (ustr ''u1'')"
  "normalize (PStr ''lives in'') = Inr (ustr ''lives_in'')"
  "normalize (PStr ''Paris'') = Inr (ustr ''paris'')"
  "normalize (PStr ''City'') = Inr (ustr ''city'')"
  by code_simp+

lemma foldM_append:
  "foldM f (xs @ ys) acc w = seqM (foldM f xs acc w) (foldM f ys)"
  by (induction xs arbitrary: acc w)
    (auto simp: seqM_def returnM_def split: prod.splits sum.splits)

lemma p_update_relationship_fails:
  assumes "normalize r = Inr rel" and "update_params s d filters = Inr ps"
    and "graph_query self CheckAndCreateQuery ps
           (w\<lparr>logged := logged w @ [Info_updating_relationship s r d]\<rparr>) = (Inr r1, w3)"
    and "graph_query self DeleteQuery ps w3 = (Inr r2, w4)"
    and "graph_query self (CreateQuery rel) ps w4 = (Inr [], w5)"
  shows "p_update_relationship self s d r filters w = (Inl (UpdateFailed s d), w5)"
  using assms
  by (simp add: p_update_relationship_def bindM_app logger_app liftE_app seqM_Inr raiseM_app)

lemma get_top_n_length: "get_top_n self q docs n = Inr out \<Longrightarrow> length out \<le> n"
  by (auto simp: get_top_n_def bindE_def split: sum.splits dest!: mapE_length)

lemma driver_select_ranking: "driver_select (self\<lparr>bm25_ranking := ranking\<rparr>) = driver_select self"
  by (intro ext) (simp add: driver_select_def)

lemma driver_query_ranking: "driver_query (self\<lparr>bm25_ranking := ranking\<rparr>) = driver_query self"
  by (intro ext) (simp add: driver_query_def)

lemma graph_query_ranking: "graph_query (self\<lparr>bm25_ranking := ranking\<rparr>) = graph_query self"
  by (intro ext) (simp add: graph_query_def driver_query_ranking driver_select_ranking)

lemma retrieve_node_ranking:
  "retrieve_node (self\<lparr>bm25_ranking := ranking\<rparr>) = retrieve_node self"
  by (intro ext) (simp add: retrieve_node_def graph_query_ranking)

lemma p_search_ranking: "p_search (self\<lparr>bm25_ranking := ranking\<rparr>) = p_search self"
  by (intro ext) (simp add: p_search_def retrieve_node_ranking structured_def)

lemma p_search_after_parse:
  assumes "lookup filters ''user_id'' = Inr uid"
    and "generate_response self (ExtractEntities uid query (entity_tools self)) = Inr sr"
    and "parse_entities sr = (entity_type_map, caught)"
  shows "p_search self query filters limit w =
     bindM (foldM (retrieve_node self filters limit) (map fst entity_type_map) [])
       (\<lambda>result_relations. returnM (result_relations, entity_type_map))
       (w\<lparr>logged := logged w @ parse_log entity_type_map caught\<rparr>)"
  using assms
  by (cases caught)
    (simp_all add: p_search_def entity_tools_def parse_log_def bindM_app liftE_app seqM_Inr
      logger_app returnM_app)

lemma retrieve_node_unsupported:
  assumes "provider self \<noteq> ''falkordb''" and "provider self \<noteq> ''neo4j''"
  shows "retrieve_node self filters limit node acc w =
     (Inl (case embed self node of Inl e \<Rightarrow> e | Inr v \<Rightarrow> unsupported), w)"
  using assms
  by (cases "embed self node")
    (simp_all add: retrieve_node_def bindM_app liftE_app seqM_Inr seqM_Inl raiseM_app unsupported_def)

lemma fill_map_ok:
  "fill_map items m = (m', None) \<Longrightarrow> list_all (\<lambda>i. entry_of i \<noteq> None) items \<and> m' = entries items m"
proof (induction items arbitrary: m)
  case Nil
  then show ?case by simp
next
  case (Cons item items)
  from Cons.prems obtain k t where
    kt: "py_getitem item ''entity_type'' = Inr t" "py_getitem item ''entity'' = Inr k"
      "py_hashable k" and rest: "fill_map items (dict_set k t m) = (m', None)"
    by (auto split: sum.splits if_splits)
  from kt have e: "entry_of item = Some (k, t)" by (simp add: entry_of_def)
  from Cons.IH [OF rest] e show ?case by simp
qed

lemma fill_map_caught:
  "fill_map items m = (m', Some e) \<Longrightarrow>
   \<exists>good bad rest. items = good @ bad # rest \<and> list_all (\<lambda>i. entry_of i \<noteq> None) good \<and>
      entry_of bad = None \<and> m' = entries good m"
proof (induction items arbitrary: m)
  case Nil
  then show ?case by simp
next
  case (Cons item items)
  show ?case
  proof (cases "entry_of item")
    case None
    with Cons.prems have "m' = m"
      by (auto simp: entry_of_def split: sum.splits if_splits)
    with None have "item # items = [] @ item # items \<and> list_all (\<lambda>i. entry_of i \<noteq> None) [] \<and>
      entry_of item = None \<and> m' = entries [] m" by simp
    then show ?thesis by blast
  next
    case (Some kt)
    obtain k t where kt: "kt = (k, t)" by (cases kt)
    with Some have g: "py_getitem item ''entity_type'' = Inr t" "py_getitem item ''entity'' = Inr k"
      "py_hashable k"
      by (auto simp: entry_of_def split: sum.splits if_splits)
    with Cons.prems have rest: "fill_map items (dict_set k t m) = (m', Some e)" by simp
    from Cons.IH [OF rest] obtain good bad rest' where
      r: "items = good @ bad # rest'" "list_all (\<lambda>i. entry_of i \<noteq> None) good"
        "entry_of bad = None" "m' = entries good (dict_set k t m)" by blast
    with Some kt have "item # items = (item # good) @ bad # rest' \<and>
      list_all (\<lambda>i. entry_of i \<noteq> None) (item # good) \<and> entry_of bad = None \<and>
      m' = entries (item # good) m" by simp
    then show ?thesis by blast
  qed
qed

lemma parse_entities_caught:
  assumes "parse_entities sr = (entity_type_map, Some e)"
  shows "case entities_of sr of
           Inl e' \<Rightarrow> e' = e \<and> entity_type_map = []
         | Inr items \<Rightarrow>
             \<exists>good bad rest. items = good @ bad # rest \<and>
               list_all (\<lambda>i. entry_of i \<noteq> None) good \<and> entry_of bad = None \<and>
               entity_type_map = entries good []"
proof (cases "entities_of sr")
  case (Inl e')
  with assms show ?thesis by (simp add: parse_entities_def)
next
  case (Inr items)
  with assms have "fill_map items [] = (entity_type_map, Some e)"
    by (simp add: parse_entities_def)
  from fill_map_caught [OF this] Inr show ?thesis by simp
qed






lemma filter_not_filter: "filter P (filter (\<lambda>x. \<not> P x) xs) = []"
  by (induction xs) simp_all

text \<open>
  On the example store, which answers a query whatever parameters it is given,
  \<^verbatim>\<open>delete_all\<close> followed by \<^verbatim>\<open>get_all\<close> returns the empty list, from every state: what
  stands between the module and this property is the unbound parameter alone.
\<close>

lemma example_delete_then_get_all:
  "fst (bindM (delete_all (example_self ''falkordb'' example_query entities decisions) example_filters)
          (\<lambda>_. get_all (example_self ''falkordb'' example_query entities decisions) example_filters limit) w)
     = Inr []"
  by (simp add: run_defs example_self_def example_filters_def example_param_def example_limit_def
      filter_not_filter del: foldM.simps cong: seqM_cong bindM_cong0 bindE_cong0)

section \<open>The claims\<close>

text \<open>
  Claim C1. \<^verbatim>\<open>get_all(filters, limit)\<close> is to return at most \<open>limit\<close> triples. The
  body never reads \<open>limit\<close>: the result is the same for every limit; the query text
  ends in \<^verbatim>\<open>LIMIT $limit\<close> and the call binds \<^verbatim>\<open>user_id\<close> only, so a store that checks its
  parameters rejects the query; and a store that answers nevertheless returns both edges
  of a user for the limit 1.
\<close>

theorem get_all_never_binds_limit:
  "get_all self filters limit = get_all self filters limit' \<and>
   fst (get_all (strict self) ((''user_id'', u) # rest) limit w) = Inl (ParameterMissing ''limit'') \<and>
   fst (get_all (example_self ''falkordb'' example_query PNone []) example_filters 1
          (example_world example_works))
     = Inr [Triple (PStr ''u1'') (PStr ''works_at'') (PStr ''acme''),
            Triple (PStr ''u1'') (PStr ''lives_in'') (PStr ''paris'')]"
proof (intro conjI)
  show "get_all self filters limit = get_all self filters limit'"
    by (simp add: get_all_def)
  show "fst (get_all (strict self) ((''user_id'', u) # rest) limit w) = Inl (ParameterMissing ''limit'')"
    by (rule get_all_strict)
  show "fst (get_all (example_self ''falkordb'' example_query PNone []) example_filters 1
          (example_world example_works))
     = Inr [Triple (PStr ''u1'') (PStr ''works_at'') (PStr ''acme''),
            Triple (PStr ''u1'') (PStr ''lives_in'') (PStr ''paris'')]"
    by code_simp
qed




text \<open>
  Claim C3. Let the decisions before an update have been applied (state \<open>w2\<close>), and let
  the update's node merge and edge deletion succeed and its edge creation return no row
  (state \<open>w5\<close>). Then \<^verbatim>\<open>add\<close> raises the exception of \<^verbatim>\<open>_update_relationship\<close>, and the
  state it leaves is \<open>w5\<close>: the store and the calls made are those reached by the
  mutations done so far; nothing is undone, and the decisions after the update are not
  applied.
\<close>

theorem update_failure_aborts_add:
  assumes "memory_updates self data filters w = (Inr updates, w1)"
    and "bindE (py_getitem updates ''tool_calls'') py_iter = Inr (before @ item # after)"
    and "foldM (apply_update self filters) before [] w1 = (Inr to_be_added, w2)"
    and "py_getitem item ''name'' = Inr (PStr ''update_graph_memory'')"
    and "py_getitem item ''arguments'' = Inr arguments"
    and "py_getitem arguments ''source'' = Inr s"
    and "py_getitem arguments ''destination'' = Inr d"
    and "py_getitem arguments ''relationship'' = Inr r"
    and "normalize r = Inr rel"
    and "update_params s d filters = Inr ps"
    and "graph_query self CheckAndCreateQuery ps
           (w2\<lparr>logged := logged w2 @ [Info_updating_relationship s r d]\<rparr>) = (Inr r1, w3)"
    and "graph_query self DeleteQuery ps w3 = (Inr r2, w4)"
    and "graph_query self (CreateQuery rel) ps w4 = (Inr [], w5)"
  shows "add self data filters w = (Inl (UpdateFailed s d), w5)"
proof -
  have up: "p_update_relationship self s d r filters w2 = (Inl (UpdateFailed s d), w5)"
    by (rule p_update_relationship_fails [OF assms(9-13)])
  have step: "apply_update self filters item to_be_added w2 = (Inl (UpdateFailed s d), w5)"
    using assms(4-8) up
    by (simp add: apply_update_def bindM_app liftE_app seqM_Inr seqM_Inl bindE_Inr)
  have loop: "foldM (apply_update self filters) (before @ item # after) [] w1
      = (Inl (UpdateFailed s d), w5)"
    using assms(3) step
    by (simp add: foldM_append foldM_Cons_app seqM_Inr seqM_Inl del: foldM.simps)
  show ?thesis
    using assms(1,2) loop
    by (simp add: add_def bindM_app liftE_app seqM_Inr seqM_Inl)
qed

text \<open>
  Claim C3 on an example: the user has one edge; a no-op, then an update whose edge
  creation returns no row, then an addition. The update's edge deletion stays (the graph
  has no edge left), and the addition is never written.
\<close>

theorem update_failure_aborts_add_witness:
  "add example_failing (ustr ''I work at Beta'') example_filters (example_world example_beta)
   = (Inl (UpdateFailed (PStr ''Alice Smith'') (PStr ''Beta Inc'')),
      example_after []
        [SelectGraph (PVal (PStr ''u1'')), Query CheckAndCreateQuery example_update_params,
         SelectGraph (PVal (PStr ''u1'')), Query DeleteQuery example_update_params,
         SelectGraph (PVal (PStr ''u1'')), Query (CreateQuery (ustr ''works_at'')) example_update_params]
        [Error_in_search_tool TypeError, Debug_entity_type_map [],
         Debug_extracted_entities (PList []),
         Info_updating_relationship (PStr ''Alice Smith'') (PStr ''Works At'') (PStr ''Beta Inc'')])"
proof -
  let ?l1 = "[Error_in_search_tool TypeError, Debug_entity_type_map [],
         Debug_extracted_entities (PList [])]"
  let ?l2 = "?l1 @ [Info_updating_relationship (PStr ''Alice Smith'') (PStr ''Works At'') (PStr ''Beta Inc'')]"
  let ?e3 = "[SelectGraph (PVal (PStr ''u1'')), Query CheckAndCreateQuery example_update_params]"
  let ?e4 = "?e3 @ [SelectGraph (PVal (PStr ''u1'')), Query DeleteQuery example_update_params]"
  let ?e5 = "?e4 @ [SelectGraph (PVal (PStr ''u1'')), Query (CreateQuery (ustr ''works_at'')) example_update_params]"
  let ?w1 = "example_after example_beta [] ?l1"
  note ev = run_defs example_defs example_failing_def example_no_create_def example_beta_def
    example_after_def example_update_params_def
  have h1: "memory_updates example_failing (ustr ''I work at Beta'') example_filters (example_world example_beta)
      = (Inr (PDict [(''tool_calls'', PList [example_noop, example_update, example_addition])]), ?w1)"
    by (simp add: ev del: normalize.simps foldM.simps cong: seqM_cong bindM_cong0 bindE_cong0)
  have h2: "bindE (py_getitem (PDict [(''tool_calls'', PList [example_noop, example_update, example_addition])])
        ''tool_calls'') py_iter = Inr ([example_noop] @ example_update # [example_addition])"
    by (simp add: bindE_def)
  have h3: "foldM (apply_update example_failing example_filters) [example_noop] [] ?w1 = (Inr [], ?w1)"
    by (simp add: ev del: normalize.simps foldM.simps cong: seqM_cong bindM_cong0 bindE_cong0)
  have h4: "py_getitem example_update ''name'' = Inr (PStr ''update_graph_memory'')"
    by (simp add: example_update_def example_call_def)
  have h5: "py_getitem example_update ''arguments'' =
      Inr (PDict [(''source'', PStr ''Alice Smith''), (''destination'', PStr ''Beta Inc''),
             (''relationship'', PStr ''Works At'')])"
    by (simp add: example_update_def example_call_def)
  have h9: "normalize (PStr ''Works At'') = Inr (ustr ''works_at'')" by (rule example_normalize)
  have h10: "update_params (PStr ''Alice Smith'') (PStr ''Beta Inc'') example_filters = Inr example_update_params"
    by (simp add: update_params_def lookup_def example_filters_def example_update_params_def bindE_def)
  have h11: "graph_query example_failing CheckAndCreateQuery example_update_params
      (?w1\<lparr>logged := logged ?w1 @ [Info_updating_relationship (PStr ''Alice Smith'') (PStr ''Works At'') (PStr ''Beta Inc'')]\<rparr>)
      = (Inr [], example_after example_beta ?e3 ?l2)"
    by (simp add: ev del: normalize.simps foldM.simps cong: seqM_cong bindM_cong0 bindE_cong0)
  have h12: "graph_query example_failing DeleteQuery example_update_params (example_after example_beta ?e3 ?l2)
      = (Inr [], example_after [] ?e4 ?l2)"
    by (simp add: ev del: normalize.simps foldM.simps cong: seqM_cong bindM_cong0 bindE_cong0)
  have h13: "graph_query example_failing (CreateQuery (ustr ''works_at'')) example_update_params (example_after [] ?e4 ?l2)
      = (Inr [], example_after [] ?e5 ?l2)"
    by (simp add: ev del: normalize.simps foldM.simps cong: seqM_cong bindM_cong0 bindE_cong0)
  from update_failure_aborts_add [OF h1 h2 h3 h4 h5 _ _ _ h9 h10 h11 h12 h13]
  show ?thesis by simp
qed

text \<open>
  Claim C4. When \<^verbatim>\<open>add\<close> returns, its result holds exactly one triple for each decision
  named \<^verbatim>\<open>add_graph_memory\<close> among the tool calls of the reconciliation response, in
  their order, and nothing for any other decision (an update, a no-op): the result is the
  list of the additions' triples.
\<close>

theorem add_returns_additions_only:
  assumes "memory_updates self data filters w = (Inr updates, w1)"
    and "bindE (py_getitem updates ''tool_calls'') py_iter = Inr items"
    and "add self data filters w = (Inr out, w')"
  shows "mapE decision_triple (filter is_add_decision items) = Inr out \<and>
         length out = length (filter is_add_decision items)"
proof -
  from assms(3) obtain mu w1' items' tba w2 re w3 where
    mu: "memory_updates self data filters w = (Inr mu, w1')"
    and it: "bindE (py_getitem mu ''tool_calls'') py_iter = Inr items'"
    and up: "foldM (apply_update self filters) items' [] w1' = (Inr tba, w2)"
    and wr: "foldM (write_addition self filters) tba [] w2 = (Inr re, w3)"
    and fin: "out = re"
    unfolding add_def
    by (elim bindM_InrE liftE_InrE returnM_InrE logger_InrE) simp
  from mu assms(1) have "mu = updates" by simp
  with it assms(2) have items: "items' = items" by simp
  from foldM_apply_update_result [OF up] items obtain args where
    args: "mapE (\<lambda>i. py_getitem i ''arguments'') (filter is_add_decision items) = Inr args"
      "tba = args" by auto
  from foldM_write_addition_result [OF wr] args(2) fin have
    ts: "mapE arguments_triple args = Inr out" by auto
  from mapE_bindE [OF args(1) ts] have
    m: "mapE decision_triple (filter is_add_decision items) = Inr out"
    by (simp add: decision_triple_def [abs_def])
  with mapE_length [OF m] show ?thesis by simp
qed

text \<open>
  Claim C4 on an example: an addition, an update, a no-op and a second addition give two
  triples.
\<close>

theorem add_returns_additions_only_witness:
  "fst (add (example_self ''falkordb'' example_query example_acme example_decisions)
          (ustr ''I work at Acme'') example_filters (example_world []))
     = Inr [Triple (ustr ''alice_smith'') (ustr ''works_at'') (ustr ''acme_corp''), Triple (ustr ''u1'') (ustr ''lives_in'') (ustr ''paris'')] \<and>
   filter is_add_decision example_decisions = [example_addition, example_second_addition] \<and>
   mapE decision_triple (filter is_add_decision example_decisions)
     = Inr [Triple (ustr ''alice_smith'') (ustr ''works_at'') (ustr ''acme_corp''), Triple (ustr ''u1'') (ustr ''lives_in'') (ustr ''paris'')]"
proof -
  let ?self = "example_self ''falkordb'' example_query example_acme example_decisions"
  let ?run = "add ?self (ustr ''I work at Acme'') example_filters (example_world [])"
  let ?mu = "memory_updates ?self (ustr ''I work at Acme'') example_filters (example_world [])"
  let ?out = "[Triple (ustr ''alice_smith'') (ustr ''works_at'') (ustr ''acme_corp''), Triple (ustr ''u1'') (ustr ''lives_in'') (ustr ''paris'')]"
  have a: "fst ?run = Inr ?out"
    by (simp add: run_defs example_defs example_normalize del: normalize.simps foldM.simps
        cong: seqM_cong bindM_cong0 bindE_cong0)
  then have run: "?run = (Inr ?out, snd ?run)" by (simp add: prod_eq_iff)
  have "fst ?mu = Inr (PDict [(''tool_calls'', PList example_decisions)])"
    by (simp add: run_defs example_self_def example_llm_def example_embed_def example_acme_def
        example_entities_def example_call_def example_filters_def example_world_def
        example_param_def example_limit_def
        del: normalize.simps foldM.simps cong: seqM_cong bindM_cong0 bindE_cong0)
  then have mu: "?mu = (Inr (PDict [(''tool_calls'', PList example_decisions)]), snd ?mu)"
    by (simp add: prod_eq_iff)
  have items: "bindE (py_getitem (PDict [(''tool_calls'', PList example_decisions)]) ''tool_calls'') py_iter
      = Inr example_decisions"
    by (simp add: bindE_def)
  have f: "filter is_add_decision example_decisions = [example_addition, example_second_addition]"
    by (simp add: is_add_decision_def example_defs)
  from add_returns_additions_only [OF mu items run] a f show ?thesis by simp
qed

text \<open>
  Claim C5. \<^verbatim>\<open>delete_all(filters)\<close> followed by \<^verbatim>\<open>get_all(filters)\<close> is to return the
  empty list. On a store that checks its parameters the pair never returns the empty
  list; on the example graph \<^verbatim>\<open>delete_all\<close> removes the nodes and edges of the user, and
  \<^verbatim>\<open>get_all\<close> then raises, its parameter \<^verbatim>\<open>limit\<close> unbound (the defect of claim C1).
  Lemma \<open>example_delete_then_get_all\<close> shows the pair on a store that does not check.
\<close>

theorem delete_all_then_get_all_raises:
  "fst (bindM (delete_all (strict self) ((''user_id'', u) # rest))
          (\<lambda>_. get_all (strict self) ((''user_id'', u) # rest) limit) w) \<noteq> Inr [] \<and>
   bindM (delete_all (strict (example_self ''falkordb'' example_query PNone [])) example_filters)
     (\<lambda>_. get_all (strict (example_self ''falkordb'' example_query PNone [])) example_filters 100)
     (example_world example_works)
   = (Inl (ParameterMissing ''limit''),
      \<lparr>store = \<lparr>selected = Some (PVal (PStr ''u1'')), nodes = [], edges = []\<rparr>,
       issued = [SelectGraph (PVal (PStr ''u1'')),
                 Query DeleteAllCypher [(''user_id'', PVal (PStr ''u1''))],
                 SelectGraph (PVal (PStr ''u1'')),
                 Query GetAllQuery [(''user_id'', PVal (PStr ''u1''))]],
       logged = []\<rparr>)"
proof (intro conjI)
  show "fst (bindM (delete_all (strict self) ((''user_id'', u) # rest))
          (\<lambda>_. get_all (strict self) ((''user_id'', u) # rest) limit) w) \<noteq> Inr []"
    by (rule delete_then_get_all_strict)
  show "bindM (delete_all (strict (example_self ''falkordb'' example_query PNone [])) example_filters)
     (\<lambda>_. get_all (strict (example_self ''falkordb'' example_query PNone [])) example_filters 100)
     (example_world example_works)
   = (Inl (ParameterMissing ''limit''),
      \<lparr>store = \<lparr>selected = Some (PVal (PStr ''u1'')), nodes = [], edges = []\<rparr>,
       issued = [SelectGraph (PVal (PStr ''u1'')),
                 Query DeleteAllCypher [(''user_id'', PVal (PStr ''u1''))],
                 SelectGraph (PVal (PStr ''u1'')),
                 Query GetAllQuery [(''user_id'', PVal (PStr ''u1''))]],
       logged = []\<rparr>)"
    by code_simp
qed

text \<open>
  Claim C6. \<^verbatim>\<open>search\<close> returns at most 5 triples, however many rows the retrieval
  gives; and when the retrieval gives no row, \<^verbatim>\<open>search\<close> returns the empty list in the
  state the retrieval left, whatever the ranking function is (it is not called).
\<close>

theorem search_at_most_five:
  "(search self query filters limit w = (Inr out, w') \<longrightarrow> length out \<le> 5) \<and>
   (p_search self query filters limit w = (Inr ([], entity_type_map), w1) \<longrightarrow>
      search (self\<lparr>bm25_ranking := ranking\<rparr>) query filters limit w = (Inr [], w1))"
proof (intro conjI impI)
  assume run: "search self query filters limit w = (Inr out, w')"
  then obtain so etm w1 where
    rest: "(if so = [] then returnM []
     else
     bindM (liftE (mapE (\<lambda>item.
              bindE (row_index item 0) (\<lambda>a.
              bindE (row_index item 2) (\<lambda>b.
              bindE (row_index item 4) (\<lambda>c. Inr [a, b, c])))) so))
       (\<lambda>search_outputs_sequence.
     bindM (liftE (get_top_n self (split_space query) search_outputs_sequence 5))
       (\<lambda>reranked_results.
     bindM (liftE (mapE (\<lambda>item.
              bindE (list_index item 0) (\<lambda>a.
              bindE (list_index item 1) (\<lambda>b.
              bindE (list_index item 2) (\<lambda>c. Inr (Triple a b c))))) reranked_results))
       (\<lambda>search_results.
     bindM (logger (Info_returned (length search_results)))
       (\<lambda>_. returnM search_results))))) w1 = (Inr out, w')"
    unfolding search_def by (elim bindM_InrE) (auto split: prod.splits)
  show "length out \<le> 5"
  proof (cases "so = []")
    case True
    with rest show ?thesis by (simp add: returnM_def)
  next
    case False
    with rest obtain seq top where
      "get_top_n self (split_space query) seq 5 = Inr top"
      and "mapE (\<lambda>item.
              bindE (list_index item 0) (\<lambda>a.
              bindE (list_index item 1) (\<lambda>b.
              bindE (list_index item 2) (\<lambda>c. Inr (Triple a b c))))) top = Inr out"
      by simp (elim bindM_InrE liftE_InrE returnM_InrE, simp)
    with get_top_n_length mapE_length show ?thesis by fastforce
  qed
next
  assume s: "p_search self query filters limit w = (Inr ([], entity_type_map), w1)"
  have "p_search (self\<lparr>bm25_ranking := ranking\<rparr>) = p_search self"
    by (rule p_search_ranking)
  with s show "search (self\<lparr>bm25_ranking := ranking\<rparr>) query filters limit w = (Inr [], w1)"
    by (simp add: search_def bindM_app seqM_Inr returnM_app)
qed

text \<open>
  Claim C6 on an example: six edges are retrieved and five triples returned; on an empty
  graph the result is empty even with a ranking library that would raise.
\<close>

theorem search_at_most_five_witness:
  "fst (search (example_self ''falkordb'' example_query example_acme []) (ustr ''where acme'')
          example_filters 100 (example_world example_six))
     = Inr [Triple (PStr ''u1'') (PStr ''reads'') (PStr ''news''),
            Triple (PStr ''u1'') (PStr ''knows'') (PStr ''bob''),
            Triple (PStr ''u1'') (PStr ''owns'') (PStr ''bike''),
            Triple (PStr ''u1'') (PStr ''likes'') (PStr ''tea''),
            Triple (PStr ''u1'') (PStr ''lives_in'') (PStr ''paris'')] \<and>
   length [Triple (PStr ''u1'') (PStr ''reads'') (PStr ''news''),
            Triple (PStr ''u1'') (PStr ''knows'') (PStr ''bob''),
            Triple (PStr ''u1'') (PStr ''owns'') (PStr ''bike''),
            Triple (PStr ''u1'') (PStr ''likes'') (PStr ''tea''),
            Triple (PStr ''u1'') (PStr ''lives_in'') (PStr ''paris'')] \<le> (5::nat) \<and>
   search ((example_self ''falkordb'' example_query example_acme [])
             \<lparr>bm25_ranking := (\<lambda>query documents. Inl (CollaboratorError ''ZeroDivisionError''))\<rparr>)
     (ustr ''where acme'') example_filters 100 (example_world [])
     = (Inr [], example_found)"
proof -
  let ?self = "example_self ''falkordb'' example_query example_acme []"
  let ?out = "[Triple (PStr ''u1'') (PStr ''reads'') (PStr ''news''),
            Triple (PStr ''u1'') (PStr ''knows'') (PStr ''bob''),
            Triple (PStr ''u1'') (PStr ''owns'') (PStr ''bike''),
            Triple (PStr ''u1'') (PStr ''likes'') (PStr ''tea''),
            Triple (PStr ''u1'') (PStr ''lives_in'') (PStr ''paris'')]"
  let ?run = "search ?self (ustr ''where acme'') example_filters 100 (example_world example_six)"
  note ev = run_defs example_defs example_six_def example_found_def
  have a: "fst ?run = Inr ?out"
    by (simp add: ev del: normalize.simps foldM.simps cong: seqM_cong bindM_cong0 bindE_cong0)
  then have run: "?run = (Inr ?out, snd ?run)" by (simp add: prod_eq_iff)
  have s: "p_search ?self (ustr ''where acme'') example_filters 100 (example_world [])
      = (Inr ([], [(PStr ''Acme'', PStr ''organization'')]), example_found)"
    by (simp add: ev del: normalize.simps foldM.simps cong: seqM_cong bindM_cong0 bindE_cong0)
  from search_at_most_five [where self = ?self and query = "ustr ''where acme''"
      and filters = example_filters and limit = 100 and w = "example_world example_six"
      and out = ?out and w' = "snd ?run"] run
  have le: "length ?out \<le> 5" by blast
  from search_at_most_five [where self = ?self and query = "ustr ''where acme''"
      and filters = example_filters and limit = 100 and w = "example_world []"
      and entity_type_map = "[(PStr ''Acme'', PStr ''organization'')]" and ?w1.0 = example_found
      and ranking = "\<lambda>query documents. Inl (CollaboratorError ''ZeroDivisionError'')"] s
  have e: "search (?self\<lparr>bm25_ranking := (\<lambda>query documents. Inl (CollaboratorError ''ZeroDivisionError''))\<rparr>)
     (ustr ''where acme'') example_filters 100 (example_world []) = (Inr [], example_found)"
    by blast
  from a le e show ?thesis by blast
qed

text \<open>
  Claim C7 fails as stated: with an unsupported provider and an extraction that finds no
  entity, \<^verbatim>\<open>_search\<close>, \<^verbatim>\<open>search\<close> and \<^verbatim>\<open>add\<close> all return, with no error. The
  provider is checked inside the loop over the entities (line 179).
\<close>

theorem unsupported_provider_counterexample:
  "provider (example_unsupported (example_entities [])) \<noteq> ''falkordb'' \<and>
   provider (example_unsupported (example_entities [])) \<noteq> ''neo4j'' \<and>
   fst (p_search (example_unsupported (example_entities [])) (ustr ''hello'') example_filters 100
          (example_world example_works)) = Inr ([], []) \<and>
   fst (search (example_unsupported (example_entities [])) (ustr ''hello'') example_filters 100
          (example_world example_works)) = Inr [] \<and>
   fst (add (example_unsupported (example_entities [])) (ustr ''hello'') example_filters
          (example_world example_works)) = Inr []"
  by (simp add: run_defs example_defs example_unsupported_def
      del: normalize.simps foldM.simps cong: seqM_cong bindM_cong0 bindE_cong0)

text \<open>
  Claim C7, amended. With a provider other than falkordb and neo4j, when the extraction
  gives at least one entity, \<^verbatim>\<open>_search\<close> raises on the first entity, before any call on
  the graph driver (the state changes in the log only): the configuration error, or the
  embedder's exception when embedding that entity fails. \<^verbatim>\<open>search\<close> and \<^verbatim>\<open>add\<close> raise
  the same.
\<close>

theorem unsupported_provider_raises:
  assumes "provider self \<noteq> ''falkordb''" and "provider self \<noteq> ''neo4j''"
    and "lookup filters ''user_id'' = Inr uid"
    and "generate_response self (ExtractEntities uid query (entity_tools self)) = Inr sr"
    and "parse_entities sr = ((node, node_type) # rest, caught)"
  shows "p_search self query filters limit w =
           (Inl (case embed self node of Inl e \<Rightarrow> e | Inr v \<Rightarrow> unsupported),
            w\<lparr>logged := logged w @ parse_log ((node, node_type) # rest) caught\<rparr>) \<and>
         search self query filters limit w =
           (Inl (case embed self node of Inl e \<Rightarrow> e | Inr v \<Rightarrow> unsupported),
            w\<lparr>logged := logged w @ parse_log ((node, node_type) # rest) caught\<rparr>) \<and>
         add self query filters w =
           (Inl (case embed self node of Inl e \<Rightarrow> e | Inr v \<Rightarrow> unsupported),
            w\<lparr>logged := logged w @ parse_log ((node, node_type) # rest) caught\<rparr>)"
proof -
  have s: "p_search self query filters limit w =
           (Inl (case embed self node of Inl e \<Rightarrow> e | Inr v \<Rightarrow> unsupported),
            w\<lparr>logged := logged w @ parse_log ((node, node_type) # rest) caught\<rparr>)"
    for limit
    by (simp add: p_search_after_parse [OF assms(3-5)] bindM_app foldM_Cons_app
        retrieve_node_unsupported [OF assms(1,2)] seqM_Inl del: foldM.simps)
  have "search self query filters limit w =
           (Inl (case embed self node of Inl e \<Rightarrow> e | Inr v \<Rightarrow> unsupported),
            w\<lparr>logged := logged w @ parse_log ((node, node_type) # rest) caught\<rparr>)"
    by (simp add: search_def bindM_app s seqM_Inl)
  moreover have "add self query filters w =
           (Inl (case embed self node of Inl e \<Rightarrow> e | Inr v \<Rightarrow> unsupported),
            w\<lparr>logged := logged w @ parse_log ((node, node_type) # rest) caught\<rparr>)"
    by (simp add: add_def memory_updates_def bindM_app s seqM_Inl)
  ultimately show ?thesis using s by blast
qed

text \<open>Claim C7, amended, on an example: one entity is extracted.\<close>

theorem unsupported_provider_raises_witness:
  "add (example_unsupported example_acme) (ustr ''hello'') example_filters (example_world example_works)
     = (Inl (ValueError ''Unsupported graph database provider for querying''),
        (example_world example_works)
          \<lparr>logged := [Debug_entity_type_map [(PStr ''Acme'', PStr ''organization'')]]\<rparr>)"
proof -
  let ?self = "example_unsupported example_acme"
  have h1: "provider ?self \<noteq> ''falkordb''" and h2: "provider ?self \<noteq> ''neo4j''"
    by (simp_all add: example_unsupported_def example_self_def)
  have h3: "lookup example_filters ''user_id'' = Inr (PStr ''u1'')"
    by (simp add: lookup_def example_filters_def)
  have h4: "generate_response ?self (ExtractEntities (PStr ''u1'') (ustr ''hello'') (entity_tools ?self))
      = Inr example_acme"
    by (simp add: example_unsupported_def example_self_def example_llm_def)
  have h5: "parse_entities example_acme = ((PStr ''Acme'', PStr ''organization'') # [], None)"
    by (simp add: parse_entities_def entities_of_def example_acme_def example_entities_def
        example_call_def bindE_def)
  have e: "embed ?self (PStr ''Acme'') = Inr 4"
    by (simp add: example_unsupported_def example_self_def example_embed_def)
  from unsupported_provider_raises [OF h1 h2 h3 h4 h5, of "100" "example_world example_works"] e
  show ?thesis
    by (simp add: unsupported_def parse_log_def example_world_def)
qed

text \<open>
  Claim C8. Let the extraction response be \<open>sr\<close> and let parsing it fail with the exception
  \<open>e\<close>, leaving the map \<open>entity_type_map\<close>. Then \<^verbatim>\<open>_search\<close> logs \<open>e\<close> and goes on: its
  outcome is that of the retrieval loop over the keys of this map, so an exception of
  \<^verbatim>\<open>_search\<close> can only be one of the retrieval. The map is empty when the list of entities
  cannot be reached; otherwise it holds exactly the entries of the items before the first
  malformed one.
\<close>

theorem parse_failure_not_fatal:
  assumes "lookup filters ''user_id'' = Inr uid"
    and "generate_response self (ExtractEntities uid query (entity_tools self)) = Inr sr"
    and "parse_entities sr = (entity_type_map, Some e)"
  shows "p_search self query filters limit w =
           bindM (foldM (retrieve_node self filters limit) (map fst entity_type_map) [])
             (\<lambda>result_relations. returnM (result_relations, entity_type_map))
             (w\<lparr>logged := logged w @ [Error_in_search_tool e, Debug_entity_type_map entity_type_map]\<rparr>) \<and>
         (entity_type_map = [] \<longrightarrow>
            p_search self query filters limit w =
              (Inr ([], []),
               w\<lparr>logged := logged w @ [Error_in_search_tool e, Debug_entity_type_map []]\<rparr>)) \<and>
         (case entities_of sr of
            Inl e' \<Rightarrow> e' = e \<and> entity_type_map = []
          | Inr items \<Rightarrow>
              \<exists>good bad rest. items = good @ bad # rest \<and>
                list_all (\<lambda>i. entry_of i \<noteq> None) good \<and> entry_of bad = None \<and>
                entity_type_map = entries good [])"
proof -
  have run: "p_search self query filters limit w =
           bindM (foldM (retrieve_node self filters limit) (map fst entity_type_map) [])
             (\<lambda>result_relations. returnM (result_relations, entity_type_map))
             (w\<lparr>logged := logged w @ [Error_in_search_tool e, Debug_entity_type_map entity_type_map]\<rparr>)"
    using p_search_after_parse [OF assms] by (simp add: parse_log_def)
  moreover have "entity_type_map = [] \<longrightarrow>
            p_search self query filters limit w =
              (Inr ([], []),
               w\<lparr>logged := logged w @ [Error_in_search_tool e, Debug_entity_type_map []]\<rparr>)"
    by (simp add: run bindM_app foldM_Nil_app seqM_Inr returnM_app)
  ultimately show ?thesis using parse_entities_caught [OF assms(3)] by blast
qed

text \<open>
  Claim C8 on an example: the third of four items has no entity type. The map holds the
  first two entries, the error is logged, and the retrieval runs for these two entities.
\<close>

theorem parse_failure_not_fatal_witness:
  "parse_entities example_broken =
     ([(PStr ''u1'', PStr ''person''), (PStr ''Acme'', PStr ''organization'')],
      Some (KeyError (PStr ''entity_type''))) \<and>
   fst (p_search (example_self ''falkordb'' example_query example_broken []) (ustr ''hello'')
          example_filters 100 (example_world example_works))
     = Inr ([RowList [PStr ''u1'', PInt 0, PStr ''works_at'', PInt 0, PStr ''acme'', PInt 0, PInt 1],
             RowList [PStr ''u1'', PInt 0, PStr ''lives_in'', PInt 0, PStr ''paris'', PInt 0, PInt 1],
             RowList [PStr ''u1'', PInt 0, PStr ''works_at'', PInt 0, PStr ''acme'', PInt 0, PInt 1],
             RowList [PStr ''u1'', PInt 0, PStr ''lives_in'', PInt 0, PStr ''paris'', PInt 0, PInt 1]],
            [(PStr ''u1'', PStr ''person''), (PStr ''Acme'', PStr ''organization'')]) \<and>
   logged (snd (p_search (example_self ''falkordb'' example_query example_broken []) (ustr ''hello'')
          example_filters 100 (example_world example_works)))
     = [Error_in_search_tool (KeyError (PStr ''entity_type'')),
        Debug_entity_type_map [(PStr ''u1'', PStr ''person''), (PStr ''Acme'', PStr ''organization'')]]"
proof -
  let ?self = "example_self ''falkordb'' example_query example_broken []"
  let ?etm = "[(PStr ''u1'', PStr ''person''), (PStr ''Acme'', PStr ''organization'')]"
  have h1: "lookup example_filters ''user_id'' = Inr (PStr ''u1'')"
    by (simp add: lookup_def example_filters_def)
  have h2: "generate_response ?self (ExtractEntities (PStr ''u1'') (ustr ''hello'') (entity_tools ?self))
      = Inr example_broken"
    by (simp add: example_self_def example_llm_def)
  have h3: "parse_entities example_broken = (?etm, Some (KeyError (PStr ''entity_type'')))"
    by (simp add: parse_entities_def entities_of_def example_broken_def example_entities_def
        example_call_def bindE_def)
  from parse_failure_not_fatal [OF h1 h2 h3, of 100 "example_world example_works"]
  have "p_search ?self (ustr ''hello'') example_filters 100 (example_world example_works) =
      bindM (foldM (retrieve_node ?self example_filters 100) (map fst ?etm) [])
        (\<lambda>result_relations. returnM (result_relations, ?etm))
        ((example_world example_works)\<lparr>logged := logged (example_world example_works) @
           [Error_in_search_tool (KeyError (PStr ''entity_type'')), Debug_entity_type_map ?etm]\<rparr>)"
    by blast
  with h3 show ?thesis
    by (simp add: run_defs example_defs del: normalize.simps foldM.simps
        cong: seqM_cong bindM_cong0 bindE_cong0)
qed

text \<open>
  Claim C9. In \<^verbatim>\<open>graph_query\<close>, for the provider falkordb the graph named by
  \<^verbatim>\<open>params["user_id"]\<close> is selected first and the query runs on the store so selected; for
  the provider neo4j every record the driver returns becomes the plain list of its
  values, in the order of its fields.
\<close>

theorem graph_query_dispatch:
  "(provider self = ''falkordb'' \<longrightarrow> lookup params ''user_id'' = Inr uid \<longrightarrow>
      graph_query self query params w =
        driver_query self query params
          (w\<lparr>store := select_graph self uid (store w), issued := issued w @ [SelectGraph uid]\<rparr>)) \<and>
   (provider self = ''neo4j'' \<longrightarrow>
      store_query self query params (store w) = (Inr (map RowDict recs), g) \<longrightarrow>
      graph_query self query params w =
        (Inr (map (\<lambda>kvs. RowList (map snd kvs)) recs),
         w\<lparr>store := g, issued := issued w @ [Query query params]\<rparr>))"
  by (auto simp: graph_query_def bindM_def liftE_def driver_select_def driver_query_def
      returnM_def mapE_row_values split: prod.splits sum.splits)

text \<open>Claim C9 on the example graph, once for each provider.\<close>

theorem graph_query_dispatch_witness:
  "graph_query (example_self ''falkordb'' example_query PNone []) GetAllQuery
     [(''user_id'', PVal (PStr ''u1'')), (''limit'', PVal (PInt 1))] (example_world example_works)
   = (Inr [RowList [PStr ''u1'', PStr ''works_at'', PStr ''acme'']],
      \<lparr>store = \<lparr>selected = Some (PVal (PStr ''u1'')),
                nodes = [(PStr ''acme'', PStr ''u1''), (PStr ''u1'', PStr ''u1''), (PStr ''paris'', PStr ''u1'')],
                edges = example_works\<rparr>,
       issued = [SelectGraph (PVal (PStr ''u1'')),
                 Query GetAllQuery [(''user_id'', PVal (PStr ''u1'')), (''limit'', PVal (PInt 1))]],
       logged = []\<rparr>) \<and>
   graph_query (example_self ''neo4j'' example_records PNone []) GetAllQuery
     [(''user_id'', PVal (PStr ''u1'')), (''limit'', PVal (PInt 1))] (example_world example_works)
   = (Inr [RowList [PStr ''u1'', PStr ''works_at'', PStr ''acme'']],
      \<lparr>store = \<lparr>selected = None,
                nodes = [(PStr ''acme'', PStr ''u1''), (PStr ''u1'', PStr ''u1''), (PStr ''paris'', PStr ''u1'')],
                edges = example_works\<rparr>,
       issued = [Query GetAllQuery [(''user_id'', PVal (PStr ''u1'')), (''limit'', PVal (PInt 1))]],
       logged = []\<rparr>)"
proof -
  let ?ps = "[(''user_id'', PVal (PStr ''u1'')), (''limit'', PVal (PInt 1))] :: nat params"
  let ?f = "example_self ''falkordb'' example_query PNone []"
  let ?n = "example_self ''neo4j'' example_records PNone []"
  let ?w = "example_world example_works"
  have f1: "provider ?f = ''falkordb''" by (simp add: example_self_def)
  have f2: "lookup ?ps ''user_id'' = Inr (PVal (PStr ''u1''))" by (simp add: lookup_def)
  have n1: "provider ?n = ''neo4j''" by (simp add: example_self_def)
  have n2: "store_query ?n GetAllQuery ?ps (store ?w) =
      (Inr (map RowDict [[(''a'', PStr ''u1''), (''b'', PStr ''works_at''), (''c'', PStr ''acme'')]]),
       store ?w)"
    by code_simp
  from graph_query_dispatch [where self = ?f and params = ?ps and uid = "PVal (PStr ''u1'')"
      and query = GetAllQuery and w = ?w] f1 f2
  have a: "graph_query ?f GetAllQuery ?ps ?w =
        driver_query ?f GetAllQuery ?ps
          (?w\<lparr>store := select_graph ?f (PVal (PStr ''u1'')) (store ?w),
               issued := issued ?w @ [SelectGraph (PVal (PStr ''u1''))]\<rparr>)"
    by blast
  from graph_query_dispatch [where self = ?n and params = ?ps and query = GetAllQuery and w = ?w
      and g = "store ?w"
      and recs = "[[(''a'', PStr ''u1''), (''b'', PStr ''works_at''), (''c'', PStr ''acme'')]]"] n1 n2
  have b: "graph_query ?n GetAllQuery ?ps ?w =
        (Inr (map (\<lambda>kvs. RowList (map snd kvs))
                [[(''a'', PStr ''u1''), (''b'', PStr ''works_at''), (''c'', PStr ''acme'')]]),
         ?w\<lparr>store := store ?w, issued := issued ?w @ [Query GetAllQuery ?ps]\<rparr>)"
    by blast
  have c: "driver_query ?f GetAllQuery ?ps
          (?w\<lparr>store := select_graph ?f (PVal (PStr ''u1'')) (store ?w),
               issued := issued ?w @ [SelectGraph (PVal (PStr ''u1''))]\<rparr>)
     = (Inr [RowList [PStr ''u1'', PStr ''works_at'', PStr ''acme'']],
      \<lparr>store = \<lparr>selected = Some (PVal (PStr ''u1'')),
                nodes = [(PStr ''acme'', PStr ''u1''), (PStr ''u1'', PStr ''u1''), (PStr ''paris'', PStr ''u1'')],
                edges = example_works\<rparr>,
       issued = [SelectGraph (PVal (PStr ''u1'')),
                 Query GetAllQuery ?ps],
       logged = []\<rparr>)"
    by code_simp
  have d: "(?w\<lparr>store := store ?w, issued := issued ?w @ [Query GetAllQuery ?ps]\<rparr>)
     = \<lparr>store = \<lparr>selected = None,
                nodes = [(PStr ''acme'', PStr ''u1''), (PStr ''u1'', PStr ''u1''), (PStr ''paris'', PStr ''u1'')],
                edges = example_works\<rparr>,
       issued = [Query GetAllQuery ?ps],
       logged = []\<rparr>"
    by code_simp
  show ?thesis using a b c d by simp
qed



end
